theory Spec2Isabelle
  imports Complex_Main "HOL-Library.Log_Nat"
begin

section \<open>JavaScript values\<close>

subsection \<open>Numbers\<close>

text \<open>
  A JavaScript number is an IEEE-754 binary64 value. A finite one is kept as the rational
  it denotes; the two zeros are identified (no code below tells them apart: they compare
  equal, are both falsy and print alike).
\<close>

datatype jsnum = NaN | NegInfinity | Finite rat | Infinity

definition pow2 :: "int \<Rightarrow> rat" where
  "pow2 e = (if 0 \<le> e then 2 ^ nat e else 1 / 2 ^ nat (- e))"

definition pow10 :: "int \<Rightarrow> rat" where
  "pow10 e = (if 0 \<le> e then 10 ^ nat e else 1 / 10 ^ nat (- e))"

text \<open>For \<open>0 < x\<close>, the exponent \<open>e\<close> with \<open>2^e \<le> x < 2^(e+1)\<close>.\<close>

definition floor_log2 :: "rat \<Rightarrow> int" where
  "floor_log2 x = (if 1 \<le> x then bitlen \<lfloor>x\<rfloor> - 1 else - bitlen (\<lceil>1 / x\<rceil> - 1))"

definition round_half_even :: "rat \<Rightarrow> int" where
  "round_half_even q = (let f = \<lfloor>q\<rfloor>; d = q - of_int f in
      if d < 1 / 2 then f else if 1 / 2 < d then f + 1 else if even f then f else f + 1)"

text \<open>
  Rounding of a real result to binary64, to nearest with ties to even: 53 significant
  bits, least normal exponent \<open>-1022\<close> (below it the spacing stays \<open>2^-1074\<close>), overflow
  to an infinity from \<open>2^1024\<close> on.
\<close>

definition round64 :: "rat \<Rightarrow> jsnum" where
  "round64 x = (if x = 0 then Finite 0 else
     let e = max (floor_log2 \<bar>x\<bar>) (- 1022); u = pow2 (e - 52);
         y = of_int (round_half_even (x / u)) * u
     in if 2 ^ 1024 \<le> \<bar>y\<bar> then (if 0 < x then Infinity else NegInfinity) else Finite y)"

text \<open>A rational is a binary64 value when it is \<open>m * 2^k\<close> within the format's bounds.\<close>

definition representable :: "rat \<Rightarrow> bool" where
  "representable x = (\<exists>m k. x = of_int m * pow2 k \<and> \<bar>m\<bar> < 2 ^ 53 \<and> - 1074 \<le> k \<and> k \<le> 971)"

fun isNaN :: "jsnum \<Rightarrow> bool" where
  "isNaN NaN = True"
| "isNaN _ = False"

fun isFinite :: "jsnum \<Rightarrow> bool" where
  "isFinite (Finite _) = True"
| "isFinite _ = False"

text \<open>The relational operators \<open><\<close> and \<open><=\<close> on numbers; a comparison with NaN is false.\<close>

fun js_lt :: "jsnum \<Rightarrow> jsnum \<Rightarrow> bool" where
  "js_lt NaN _ = False"
| "js_lt _ NaN = False"
| "js_lt NegInfinity NegInfinity = False"
| "js_lt NegInfinity _ = True"
| "js_lt (Finite a) (Finite b) = (a < b)"
| "js_lt (Finite a) Infinity = True"
| "js_lt (Finite a) NegInfinity = False"
| "js_lt Infinity _ = False"

definition js_le :: "jsnum \<Rightarrow> jsnum \<Rightarrow> bool" where
  "js_le a b = (\<not> isNaN a \<and> \<not> isNaN b \<and> (a = b \<or> js_lt a b))"

definition js_gt :: "jsnum \<Rightarrow> jsnum \<Rightarrow> bool" where
  "js_gt a b = js_lt b a"

text \<open>The operator \<open>*\<close>.\<close>

fun sign_of :: "jsnum \<Rightarrow> int" where
  "sign_of NaN = 0"
| "sign_of NegInfinity = - 1"
| "sign_of (Finite a) = sgn \<lfloor>sgn a\<rfloor>"
| "sign_of Infinity = 1"

fun js_mul :: "jsnum \<Rightarrow> jsnum \<Rightarrow> jsnum" where
  "js_mul (Finite a) (Finite b) = round64 (a * b)"
| "js_mul a b = (if isNaN a \<or> isNaN b \<or> sign_of a * sign_of b = 0 then NaN
                 else if 0 < sign_of a * sign_of b then Infinity else NegInfinity)"

subsection \<open>Strings\<close>

text \<open>A JavaScript string is a sequence of UTF-16 code units.\<close>

type_synonym jsstring = "int list"

definition lit :: "string \<Rightarrow> jsstring" where
  "lit s = map of_char s"

definition between :: "char \<Rightarrow> char \<Rightarrow> int \<Rightarrow> bool" where
  "between a b c = (of_char a \<le> c \<and> c \<le> of_char b)"

text \<open>White space and line terminators, as \<open>String.prototype.trim\<close> and \<open>Number\<close> strip them.\<close>

definition is_ws :: "int \<Rightarrow> bool" where
  "is_ws c = ((9 \<le> c \<and> c \<le> 13) \<or> c = 32 \<or> c = 160 \<or> c = 5760
              \<or> (8192 \<le> c \<and> c \<le> 8202) \<or> c = 8232 \<or> c = 8233 \<or> c = 8239
              \<or> c = 8287 \<or> c = 12288 \<or> c = 65279)"

definition trim :: "jsstring \<Rightarrow> jsstring" where
  "trim s = rev (dropWhile is_ws (rev (dropWhile is_ws s)))"

definition startsWith :: "jsstring \<Rightarrow> jsstring \<Rightarrow> bool" where
  "startsWith s p = (take (length p) s = p)"

subsection \<open>Conversion of a string to a number\<close>

definition is_digit :: "int \<Rightarrow> bool" where
  "is_digit c = between CHR ''0'' CHR ''9'' c"

definition hex_val :: "int \<Rightarrow> int option" where
  "hex_val c = (if between CHR ''0'' CHR ''9'' c then Some (c - 48)
                else if between CHR ''a'' CHR ''f'' c then Some (c - 87)
                else if between CHR ''A'' CHR ''F'' c then Some (c - 55) else None)"

definition digits_value :: "int \<Rightarrow> jsstring \<Rightarrow> int" where
  "digits_value b ds = foldl (\<lambda>a c. a * b + the (hex_val c)) 0 ds"

text \<open>Digits of a radix: \<open>digits_in b\<close> accepts a non-empty run of digits below \<open>b\<close>.\<close>

definition digits_in :: "int \<Rightarrow> jsstring \<Rightarrow> bool" where
  "digits_in b ds = (ds \<noteq> [] \<and> list_all (\<lambda>c. case hex_val c of None \<Rightarrow> False | Some v \<Rightarrow> v < b) ds)"

definition NonDecimalIntegerLiteral :: "jsstring \<Rightarrow> rat option" where
  "NonDecimalIntegerLiteral s = (case s of
      z # p # ds \<Rightarrow>
        if z \<noteq> of_char CHR ''0'' then None
        else if (p = of_char CHR ''x'' \<or> p = of_char CHR ''X'') \<and> digits_in 16 ds
          then Some (of_int (digits_value 16 ds))
        else if (p = of_char CHR ''o'' \<or> p = of_char CHR ''O'') \<and> digits_in 8 ds
          then Some (of_int (digits_value 8 ds))
        else if (p = of_char CHR ''b'' \<or> p = of_char CHR ''B'') \<and> digits_in 2 ds
          then Some (of_int (digits_value 2 ds))
        else None
    | _ \<Rightarrow> None)"

definition ExponentPart :: "jsstring \<Rightarrow> int option" where
  "ExponentPart r = (case r of
      [] \<Rightarrow> Some 0
    | c # r1 \<Rightarrow>
        if c = of_char CHR ''e'' \<or> c = of_char CHR ''E'' then
          (case r1 of
             [] \<Rightarrow> None
           | g # ds \<Rightarrow>
               if g = of_char CHR ''+'' then
                 (if digits_in 10 ds then Some (digits_value 10 ds) else None)
               else if g = of_char CHR ''-'' then
                 (if digits_in 10 ds then Some (- digits_value 10 ds) else None)
               else (if digits_in 10 r1 then Some (digits_value 10 r1) else None))
        else None)"

definition StrUnsignedDecimalLiteral :: "jsstring \<Rightarrow> rat option" where
  "StrUnsignedDecimalLiteral s =
     (let ip = takeWhile is_digit s; r1 = dropWhile is_digit s;
          dot = (case r1 of [] \<Rightarrow> False | c # _ \<Rightarrow> c = of_char CHR ''.'');
          fp = (if dot then takeWhile is_digit (tl r1) else []);
          r2 = (if dot then dropWhile is_digit (tl r1) else r1)
      in if ip = [] \<and> fp = [] then None
         else case ExponentPart r2 of
                None \<Rightarrow> None
              | Some e \<Rightarrow> Some ((of_int (digits_value 10 ip)
                                 + of_int (digits_value 10 fp) / 10 ^ length fp) * pow10 e))"

definition StrDecimalLiteral :: "jsstring \<Rightarrow> jsnum" where
  "StrDecimalLiteral s =
     (let neg = (case s of [] \<Rightarrow> False | c # _ \<Rightarrow> c = of_char CHR ''-'');
          signed = (case s of [] \<Rightarrow> False | c # _ \<Rightarrow> c = of_char CHR ''-'' \<or> c = of_char CHR ''+'');
          u = (if signed then tl s else s)
      in if u = lit ''Infinity'' then (if neg then NegInfinity else Infinity)
         else case StrUnsignedDecimalLiteral u of
                None \<Rightarrow> NaN
              | Some v \<Rightarrow> round64 (if neg then - v else v))"

definition StringToNumber :: "jsstring \<Rightarrow> jsnum" where
  "StringToNumber s =
     (let t = trim s
      in if t = [] then Finite 0
         else case NonDecimalIntegerLiteral t of
                Some v \<Rightarrow> round64 v
              | None \<Rightarrow> StrDecimalLiteral t)"

subsection \<open>Values\<close>

text \<open>
  The values that arrive in a parsed JSON document, and \<open>undefined\<close> for what is absent.
  An object is the list of its own properties.
\<close>

datatype jsval =
    Undefined
  | Null
  | Bool bool
  | Num jsnum
  | Str jsstring
  | Arr "jsval list"
  | Obj "(string \<times> jsval) list"

text \<open>Property access \<open>v.k\<close> for the property names the program reads.\<close>

fun get :: "jsval \<Rightarrow> string \<Rightarrow> jsval" where
  "get (Obj kvs) k = (case map_of kvs k of None \<Rightarrow> Undefined | Some v \<Rightarrow> v)"
| "get _ k = Undefined"

fun truthy :: "jsval \<Rightarrow> bool" where
  "truthy Undefined = False"
| "truthy Null = False"
| "truthy (Bool b) = b"
| "truthy (Num n) = (\<not> isNaN n \<and> n \<noteq> Finite 0)"
| "truthy (Str s) = (s \<noteq> [])"
| "truthy (Arr _) = True"
| "truthy (Obj _) = True"

text \<open>\<open>v == null\<close> holds of \<open>null\<close> and \<open>undefined\<close> only.\<close>

fun nullish :: "jsval \<Rightarrow> bool" where
  "nullish Undefined = True"
| "nullish Null = True"
| "nullish _ = False"

text \<open>The operators \<open>||\<close> and \<open>&&\<close>.\<close>

definition js_or :: "jsval \<Rightarrow> jsval \<Rightarrow> jsval" where
  "js_or a b = (if truthy a then a else b)"

definition js_and :: "jsval \<Rightarrow> jsval \<Rightarrow> jsval" where
  "js_and a b = (if truthy a then b else a)"

text \<open>
  \<open>Number(v)\<close>. An array converts through its string form, the comma-joined elements: the
  empty array gives the empty string, two or more elements give a string with a comma
  (never a numeral), and one element gives that element's own string form, where
  \<open>Number(String(n)) = n\<close> for a number \<open>n\<close>. A plain object's
  string form is not a numeral. (Own properties named \<open>valueOf\<close> or \<open>toString\<close>
  are not modelled.)
\<close>

fun ToNumber :: "jsval \<Rightarrow> jsnum" where
  "ToNumber Undefined = NaN"
| "ToNumber Null = Finite 0"
| "ToNumber (Bool b) = Finite (if b then 1 else 0)"
| "ToNumber (Num n) = n"
| "ToNumber (Str s) = StringToNumber s"
| "ToNumber (Obj _) = NaN"
| "ToNumber (Arr []) = Finite 0"
| "ToNumber (Arr [Undefined]) = Finite 0"
| "ToNumber (Arr [Null]) = Finite 0"
| "ToNumber (Arr [Bool b]) = NaN"
| "ToNumber (Arr [Num n]) = n"
| "ToNumber (Arr [Str s]) = StringToNumber s"
| "ToNumber (Arr [Obj _]) = NaN"
| "ToNumber (Arr [Arr ys]) = ToNumber (Arr ys)"
| "ToNumber (Arr (x # y # zs)) = NaN"

section \<open>Network detection from the address shape\<close>

text \<open>
  Both the withdrawal handler and \<open>withdrawUSDT\<close> test the address with
  \<^verbatim>\<open>/^T[A-Za-z1-9]{33}$/\<close> first and with \<^verbatim>\<open>/^[1-9A-HJ-NP-Za-km-z]{32,44}$/\<close> second.
\<close>

definition trc20_char :: "int \<Rightarrow> bool" where
  "trc20_char c = (between CHR ''A'' CHR ''Z'' c \<or> between CHR ''a'' CHR ''z'' c
                   \<or> between CHR ''1'' CHR ''9'' c)"

definition base58_char :: "int \<Rightarrow> bool" where
  "base58_char c = (between CHR ''1'' CHR ''9'' c \<or> between CHR ''A'' CHR ''H'' c
                    \<or> between CHR ''J'' CHR ''N'' c \<or> between CHR ''P'' CHR ''Z'' c
                    \<or> between CHR ''a'' CHR ''k'' c \<or> between CHR ''m'' CHR ''z'' c)"

definition isTRC20 :: "jsstring \<Rightarrow> bool" where
  "isTRC20 a = (case a of [] \<Rightarrow> False
                | c # cs \<Rightarrow> c = of_char CHR ''T'' \<and> length cs = 33 \<and> list_all trc20_char cs)"

definition isSolana :: "jsstring \<Rightarrow> bool" where
  "isSolana a = (32 \<le> length a \<and> length a \<le> 44 \<and> list_all base58_char a)"

definition detectNetwork :: "jsstring \<Rightarrow> jsstring option" where
  "detectNetwork a = (if isTRC20 a then Some (lit ''TRX'')
                      else if isSolana a then Some (lit ''SOL'')
                      else None)"

text \<open>
  The two address families in the specification's words: a fixed first letter, a fixed total
  length and an alphanumeric rest; a bounded length over a base-58 alphabet.
\<close>

definition family_A :: "jsstring \<Rightarrow> bool" where
  "family_A a = (length a = 34 \<and> hd a = of_char CHR ''T'' \<and> list_all trc20_char (tl a))"

definition family_B :: "jsstring \<Rightarrow> bool" where
  "family_B a = (32 \<le> length a \<and> length a \<le> 44 \<and> list_all base58_char a)"

section \<open>Errors and responses\<close>

datatype sqlite_code = SQLITE_CONSTRAINT_UNIQUE | SQLITE_CONSTRAINT_NOTNULL | SQLITE_IOERR

text \<open>
  What a \<open>throw\<close> carries: an \<open>Error\<close> made by this program (with its message), a
  \<open>TypeError\<close> (a property read from \<open>null\<close> or \<open>undefined\<close>), the \<open>RangeError\<close> of
  \<open>toISOString\<close> on an invalid date, an error of the HTTP client (with its message, and
  with the response's status and body when the server answered), an error of the SQLite
  driver.
\<close>

datatype js_error =
    Error string
  | TypeError
  | RangeError
  | AxiosError jsstring "(int \<times> jsval) option"
  | SqliteError sqlite_code

text \<open>
  An ISO-8601 string as \<open>toISOString\<close> prints it is kept as the time value (milliseconds
  since the epoch) that it prints.
\<close>

type_synonym timestamp = int

text \<open>
  The responses. \<open>BadRequest\<close> is status 400 with \<open>{ error }\<close>; \<open>Uncaught\<close> is an
  exception that leaves the handler (the framework answers 500); all others are status
  200 with the fields listed. The \<open>message\<close> texts that only repeat other fields are left out.
\<close>

datatype response =
    BadRequest string
  | Uncaught js_error
  | Rate jsnum
  | MinDepositAmount jsnum
  | MinWithdrawalAmount jsnum
  | DepositComplete jsnum timestamp jsnum
      \<comment> \<open>\<open>confirmedAmount\<close>, \<open>confirmedAt\<close>, \<open>rewardKes\<close>\<close>
  | AlreadyUsed jsnum jsnum timestamp
      \<comment> \<open>\<open>confirmedAmount\<close>, \<open>rewardKes\<close>, \<open>confirmedAt\<close> of the stored row\<close>
  | NotFound
  | AmountTooLow jsnum jsnum
      \<comment> \<open>\<open>minDepositAmount\<close>, \<open>confirmedAmount\<close>\<close>
  | RegionRestricted jsval
      \<comment> \<open>\<open>binanceMessage\<close>\<close>
  | VerificationError jsval "js_error option"
      \<comment> \<open>\<open>message\<close>, and \<open>details\<close> (the caught error, in development mode only)\<close>
  | NoFunds
      \<comment> \<open>\<open>insufficient_funds\<close> with \<open>availableAmount: 0\<close>\<close>
  | BelowMinimum jsnum jsnum
      \<comment> \<open>\<open>requestedAmount\<close>, \<open>minWithdrawalAmount\<close>\<close>
  | InsufficientFunds jsnum jsnum
      \<comment> \<open>\<open>requestedAmount\<close>, \<open>availableAmount\<close>\<close>
  | UpstreamInsufficientFunds jsval
      \<comment> \<open>\<open>message\<close>\<close>
  | WithdrawalError jsval "js_error option"
      \<comment> \<open>\<open>message\<close>, \<open>details\<close>\<close>
  | WithdrawalComplete jsval jsnum jsstring jsval
      \<comment> \<open>\<open>withdrawalId\<close>, \<open>amount\<close>, \<open>address\<close>, \<open>network\<close>\<close>

text \<open>The \<open>status\<close> and \<open>reason\<close> fields of a response body.\<close>

fun status :: "response \<Rightarrow> string option" where
  "status (DepositComplete _ _ _) = Some ''complete''"
| "status (WithdrawalComplete _ _ _ _) = Some ''complete''"
| "status (BadRequest _) = None"
| "status (Uncaught _) = None"
| "status (Rate _) = None"
| "status (MinDepositAmount _) = None"
| "status (MinWithdrawalAmount _) = None"
| "status _ = Some ''failed''"

fun reason :: "response \<Rightarrow> string option" where
  "reason (AlreadyUsed _ _ _) = Some ''already_used''"
| "reason NotFound = Some ''not_found''"
| "reason (AmountTooLow _ _) = Some ''amount_too_low''"
| "reason (RegionRestricted _) = Some ''region_restricted''"
| "reason (VerificationError _ _) = Some ''verification_error''"
| "reason NoFunds = Some ''insufficient_funds''"
| "reason (BelowMinimum _ _) = Some ''amount_below_minimum''"
| "reason (InsufficientFunds _ _) = Some ''insufficient_funds''"
| "reason (UpstreamInsufficientFunds _) = Some ''insufficient_funds''"
| "reason (WithdrawalError _ _) = Some ''withdrawal_error''"
| "reason _ = None"

section \<open>The store (db.js)\<close>

text \<open>
  Table \<open>processed_transactions\<close>: \<open>id\<close> autoincremented, \<open>txId\<close> unique, every column
  \<open>NOT NULL\<close>. (\<open>createdAt\<close>, filled by the store and read by nothing, is left out.)
\<close>

record tx_row =
  rowid :: nat
  txId :: jsstring
  asset :: jsstring
  amount :: jsnum
  rewardKes :: jsnum
  confirmedAt :: timestamp

text \<open>
  A value of table \<open>settings\<close>: a text. \<open>NumberText n\<close> is the text \<open>String(n)\<close> that
  \<open>setSetting\<close> writes for the number \<open>n\<close>; \<open>Number\<close> reads \<open>n\<close> back from it.
\<close>

datatype setting_text = NumberText jsnum | Text jsstring

fun text_to_number :: "setting_text \<Rightarrow> jsnum" where
  "text_to_number (NumberText n) = n"
| "text_to_number (Text s) = StringToNumber s"

text \<open>
  The database: the two tables, the autoincrement counter, and whether a writing statement
  can be carried out (when the file is read-only, locked, or the disk is full, the driver throws).
\<close>

record database =
  processed_transactions :: "tx_row list"
  settings :: "(string \<times> setting_text) list"
  sequence :: nat
  write_ok :: bool

definition getByTxId :: "database \<Rightarrow> jsstring \<Rightarrow> tx_row option" where
  "getByTxId d k = find (\<lambda>r. txId r = k) (processed_transactions d)"

text \<open>
  \<open>insert\<close>: the columns are checked for \<open>NOT NULL\<close> (the driver binds NaN as NULL),
  then \<open>txId\<close> for uniqueness.
\<close>

definition insert_row :: "database \<Rightarrow> jsstring \<Rightarrow> jsstring \<Rightarrow> jsnum \<Rightarrow> jsnum \<Rightarrow> timestamp
    \<Rightarrow> js_error + database" where
  "insert_row d t a amt rew cat =
     (if \<not> write_ok d then Inl (SqliteError SQLITE_IOERR)
      else if isNaN amt \<or> isNaN rew then Inl (SqliteError SQLITE_CONSTRAINT_NOTNULL)
      else if getByTxId d t \<noteq> None then Inl (SqliteError SQLITE_CONSTRAINT_UNIQUE)
      else Inr (d\<lparr>processed_transactions := processed_transactions d @
                     [\<lparr>rowid = Suc (sequence d), txId = t, asset = a, amount = amt,
                       rewardKes = rew, confirmedAt = cat\<rparr>],
                   sequence := Suc (sequence d)\<rparr>))"

definition getSetting :: "database \<Rightarrow> string \<Rightarrow> setting_text option" where
  "getSetting d k = map_of (settings d) k"

fun upsert :: "string \<Rightarrow> setting_text \<Rightarrow> (string \<times> setting_text) list
    \<Rightarrow> (string \<times> setting_text) list" where
  "upsert k v [] = [(k, v)]"
| "upsert k v ((k', v') # kvs) = (if k' = k then (k, v) # kvs else (k', v') # upsert k v kvs)"

definition setSetting :: "database \<Rightarrow> string \<Rightarrow> jsnum \<Rightarrow> js_error + database" where
  "setSetting d k n =
     (if \<not> write_ok d then Inl (SqliteError SQLITE_IOERR)
      else Inr (d\<lparr>settings := upsert k (NumberText n) (settings d)\<rparr>))"

section \<open>The server (index.js)\<close>

subsection \<open>State and start-up\<close>

text \<open>A request to the exchange, as the signed client sends it.\<close>

datatype http_method = GET | POST

record request =
  verb :: http_method
  path :: string
  params :: "(string \<times> jsval) list"

text \<open>
  The state of the process: the three module-level variables, the database, and the
  requests sent to the exchange so far.
\<close>

record state =
  KES_PER_USDT :: jsnum
  MIN_DEPOSIT_AMOUNT :: jsnum
  MIN_WITHDRAWAL_AMOUNT :: jsnum
  db :: database
  sent :: "request list"

text \<open>\<open>process.env.K || dflt\<close>: a variable that is unset or empty gives the default.\<close>

definition env_or :: "(string \<Rightarrow> jsstring option) \<Rightarrow> string \<Rightarrow> jsstring \<Rightarrow> jsstring" where
  "env_or penv k dflt = (case penv k of None \<Rightarrow> dflt | Some v \<Rightarrow> if v = [] then dflt else v)"

text \<open>
  The three initialisers: the stored value when it is a number in range, otherwise the
  environment's value when it is in range, otherwise the constant; whatever is not taken
  from the store is written to it.
\<close>

definition init_KES_PER_USDT :: "(string \<Rightarrow> jsstring option) \<Rightarrow> database
    \<Rightarrow> js_error + (jsnum \<times> database)" where
  "init_KES_PER_USDT penv d =
     (let fromDb = getSetting d ''KES_PER_USDT'';
          n = (case fromDb of None \<Rightarrow> NaN | Some t \<Rightarrow> text_to_number t)
      in if fromDb \<noteq> None \<and> \<not> isNaN n \<and> js_gt n (Finite 0) then Inr (n, d)
         else
           let fromEnv = StringToNumber (env_or penv ''KES_PER_USDT'' (lit ''150''));
               initial = (if \<not> isNaN fromEnv \<and> js_gt fromEnv (Finite 0) then fromEnv else Finite 150)
           in case setSetting d ''KES_PER_USDT'' initial of
                Inl e \<Rightarrow> Inl e
              | Inr d' \<Rightarrow> Inr (initial, d'))"

definition init_MIN_DEPOSIT_AMOUNT :: "(string \<Rightarrow> jsstring option) \<Rightarrow> database
    \<Rightarrow> js_error + (jsnum \<times> database)" where
  "init_MIN_DEPOSIT_AMOUNT penv d =
     (let fromDb = getSetting d ''MIN_DEPOSIT_AMOUNT'';
          n = (case fromDb of None \<Rightarrow> NaN | Some t \<Rightarrow> text_to_number t)
      in if fromDb \<noteq> None \<and> \<not> isNaN n \<and> js_le (Finite 0) n then Inr (n, d)
         else
           let fromEnv = StringToNumber (env_or penv ''MIN_DEPOSIT_AMOUNT'' (lit ''0''));
               initial = (if \<not> isNaN fromEnv \<and> js_le (Finite 0) fromEnv then fromEnv else Finite 0)
           in case setSetting d ''MIN_DEPOSIT_AMOUNT'' initial of
                Inl e \<Rightarrow> Inl e
              | Inr d' \<Rightarrow> Inr (initial, d'))"

definition init_MIN_WITHDRAWAL_AMOUNT :: "(string \<Rightarrow> jsstring option) \<Rightarrow> database
    \<Rightarrow> js_error + (jsnum \<times> database)" where
  "init_MIN_WITHDRAWAL_AMOUNT penv d =
     (let fromDb = getSetting d ''MIN_WITHDRAWAL_AMOUNT'';
          n = (case fromDb of None \<Rightarrow> NaN | Some t \<Rightarrow> text_to_number t)
      in if fromDb \<noteq> None \<and> \<not> isNaN n \<and> js_gt n (Finite 0) then Inr (n, d)
         else
           let fromEnv = StringToNumber (env_or penv ''MIN_WITHDRAWAL_AMOUNT'' (lit ''10''));
               initial = (if \<not> isNaN fromEnv \<and> js_gt fromEnv (Finite 0) then fromEnv else Finite 10)
           in case setSetting d ''MIN_WITHDRAWAL_AMOUNT'' initial of
                Inl e \<Rightarrow> Inl e
              | Inr d' \<Rightarrow> Inr (initial, d'))"

text \<open>Loading the module: an initialiser that throws ends the process.\<close>

definition startup :: "(string \<Rightarrow> jsstring option) \<Rightarrow> database \<Rightarrow> js_error + state" where
  "startup penv d0 =
     (case init_KES_PER_USDT penv d0 of
        Inl e \<Rightarrow> Inl e
      | Inr (rate, d1) \<Rightarrow>
          (case init_MIN_DEPOSIT_AMOUNT penv d1 of
             Inl e \<Rightarrow> Inl e
           | Inr (mind, d2) \<Rightarrow>
               (case init_MIN_WITHDRAWAL_AMOUNT penv d2 of
                  Inl e \<Rightarrow> Inl e
                | Inr (minw, d3) \<Rightarrow>
                    Inr \<lparr>KES_PER_USDT = rate, MIN_DEPOSIT_AMOUNT = mind,
                         MIN_WITHDRAWAL_AMOUNT = minw, db = d3, sent = []\<rparr>)))"

subsection \<open>The configuration endpoints\<close>

text \<open>\<open>req.body || {}\<close>.\<close>

definition body_of :: "jsval \<Rightarrow> jsval" where
  "body_of b = (if truthy b then b else Obj [])"

definition get_rate :: "state \<Rightarrow> response \<times> state" where
  "get_rate s = (Rate (KES_PER_USDT s), s)"

definition post_rate :: "state \<Rightarrow> jsval \<Rightarrow> response \<times> state" where
  "post_rate s body =
     (let rate = get (body_of body) ''rate''; n = ToNumber rate
      in if \<not> truthy rate \<or> isNaN n \<or> js_le n (Finite 0)
         then (BadRequest ''rate must be a positive number'', s)
         else
           let s1 = s\<lparr>KES_PER_USDT := n\<rparr>
           in case setSetting (db s1) ''KES_PER_USDT'' n of
                Inl e \<Rightarrow> (Uncaught e, s1)
              | Inr d \<Rightarrow> (Rate (KES_PER_USDT s1), s1\<lparr>db := d\<rparr>))"

definition get_min_deposit :: "state \<Rightarrow> response \<times> state" where
  "get_min_deposit s = (MinDepositAmount (MIN_DEPOSIT_AMOUNT s), s)"

definition post_min_deposit :: "state \<Rightarrow> jsval \<Rightarrow> response \<times> state" where
  "post_min_deposit s body =
     (let minDepositAmount = get (body_of body) ''minDepositAmount''; n = ToNumber minDepositAmount
      in if nullish minDepositAmount \<or> isNaN n \<or> js_lt n (Finite 0)
         then (BadRequest ''minDepositAmount must be a non-negative number'', s)
         else
           let s1 = s\<lparr>MIN_DEPOSIT_AMOUNT := n\<rparr>
           in case setSetting (db s1) ''MIN_DEPOSIT_AMOUNT'' n of
                Inl e \<Rightarrow> (Uncaught e, s1)
              | Inr d \<Rightarrow> (MinDepositAmount (MIN_DEPOSIT_AMOUNT s1), s1\<lparr>db := d\<rparr>))"

definition get_min_withdrawal :: "state \<Rightarrow> response \<times> state" where
  "get_min_withdrawal s = (MinWithdrawalAmount (MIN_WITHDRAWAL_AMOUNT s), s)"

definition post_min_withdrawal :: "state \<Rightarrow> jsval \<Rightarrow> response \<times> state" where
  "post_min_withdrawal s body =
     (let minWithdrawalAmount = get (body_of body) ''minWithdrawalAmount'';
          n = ToNumber minWithdrawalAmount
      in if nullish minWithdrawalAmount \<or> isNaN n \<or> js_le n (Finite 0)
         then (BadRequest ''minWithdrawalAmount must be a positive number'', s)
         else
           let s1 = s\<lparr>MIN_WITHDRAWAL_AMOUNT := n\<rparr>
           in case setSetting (db s1) ''MIN_WITHDRAWAL_AMOUNT'' n of
                Inl e \<Rightarrow> (Uncaught e, s1)
              | Inr d \<Rightarrow> (MinWithdrawalAmount (MIN_WITHDRAWAL_AMOUNT s1), s1\<lparr>db := d\<rparr>))"

text \<open>A sequence of requests to the configuration endpoints, served one after the other.\<close>

datatype config_request =
    GET_rate
  | POST_rate jsval
  | GET_min_deposit
  | POST_min_deposit jsval
  | GET_min_withdrawal
  | POST_min_withdrawal jsval

fun serve_config :: "state \<Rightarrow> config_request \<Rightarrow> response \<times> state" where
  "serve_config s GET_rate = get_rate s"
| "serve_config s (POST_rate b) = post_rate s b"
| "serve_config s GET_min_deposit = get_min_deposit s"
| "serve_config s (POST_min_deposit b) = post_min_deposit s b"
| "serve_config s GET_min_withdrawal = get_min_withdrawal s"
| "serve_config s (POST_min_withdrawal b) = post_min_withdrawal s b"

fun serve_all :: "state \<Rightarrow> config_request list \<Rightarrow> state" where
  "serve_all s [] = s"
| "serve_all s (r # rs) = serve_all (snd (serve_config s r)) rs"

section \<open>The exchange client (binanceClient.js)\<close>

text \<open>
  What lies outside the process: what the exchange answers to a request (a body, or an
  error of the HTTP client), the clock, the host's parsing of a date given as text (or as
  an array or object, through its text), and what the other requests in flight do to the
  state while a handler waits at an \<open>await\<close>.
\<close>

record world =
  answer :: "request \<Rightarrow> js_error + jsval"
  now :: jsnum
  Date_parse :: "jsval \<Rightarrow> jsnum"
  concurrent :: "state \<Rightarrow> state"

text \<open>\<open>!BINANCE_API_KEY || !BINANCE_API_SECRET\<close>: a variable that is unset or empty is falsy.\<close>

definition env_truthy :: "jsstring option \<Rightarrow> bool" where
  "env_truthy v = (case v of None \<Rightarrow> False | Some t \<Rightarrow> t \<noteq> [])"

definition credentials_missing :: "(string \<Rightarrow> jsstring option) \<Rightarrow> bool" where
  "credentials_missing penv =
     (\<not> env_truthy (penv ''BINANCE_API_KEY'') \<or> \<not> env_truthy (penv ''BINANCE_API_SECRET''))"

text \<open>
  The signed request: the parameters with \<open>recvWindow\<close> and \<open>timestamp\<close>. (Its query string,
  signature and key header are functions of these and of the credentials.)
\<close>

definition signed :: "http_method \<Rightarrow> string \<Rightarrow> (string \<times> jsval) list \<Rightarrow> jsnum \<Rightarrow> request" where
  "signed m p ps t =
     \<lparr>verb = m, path = p,
      params = (''recvWindow'', Num (Finite 60000)) # ps @ [(''timestamp'', Num t)]\<rparr>"

text \<open>
  \<open>binanceGet\<close> and \<open>binancePost\<close> return the response body or the thrown error,
  together with the list of the requests sent so far.
\<close>

definition binanceGet :: "(string \<Rightarrow> jsstring option) \<Rightarrow> world \<Rightarrow> request list \<Rightarrow> string
    \<Rightarrow> (string \<times> jsval) list \<Rightarrow> (js_error + jsval) \<times> request list" where
  "binanceGet penv w out p ps =
     (if credentials_missing penv
      then (Inl (Error ''Binance API credentials are not configured''), out)
      else (answer w (signed GET p ps (now w)), out @ [signed GET p ps (now w)]))"

definition binancePost :: "(string \<Rightarrow> jsstring option) \<Rightarrow> world \<Rightarrow> request list \<Rightarrow> string
    \<Rightarrow> (string \<times> jsval) list \<Rightarrow> (js_error + jsval) \<times> request list" where
  "binancePost penv w out p ps =
     (if credentials_missing penv
      then (Inl (Error ''Binance API credentials are not configured''), out)
      else (answer w (signed POST p ps (now w)), out @ [signed POST p ps (now w)]))"

definition getDepositHistory :: "(string \<Rightarrow> jsstring option) \<Rightarrow> world \<Rightarrow> request list
    \<Rightarrow> jsval \<Rightarrow> jsval \<Rightarrow> jsval \<Rightarrow> jsval \<Rightarrow> (js_error + jsval list) \<times> request list" where
  "getDepositHistory penv w out coin startTime endTime limit =
     (let ps = [(''coin'', coin), (''limit'', if limit = Undefined then Num (Finite 1000) else limit)]
               @ (if truthy startTime then [(''startTime'', startTime)] else [])
               @ (if truthy endTime then [(''endTime'', endTime)] else []);
          (data, out') = binanceGet penv w out ''/sapi/v1/capital/deposit/hisrec'' ps
      in case data of
           Inl e \<Rightarrow> (Inl e, out')
         | Inr (Arr ds) \<Rightarrow> (Inr ds, out')
         | Inr _ \<Rightarrow> (Inl (Error ''Unexpected Binance deposit history response format''), out'))"

text \<open>\<open>balances.find((b) => b.asset === "USDT")\<close>: reading \<open>asset\<close> of \<open>null\<close> throws.\<close>

fun find_USDT :: "jsval list \<Rightarrow> js_error + jsval option" where
  "find_USDT [] = Inr None"
| "find_USDT (b # bs) =
     (if nullish b then Inl TypeError
      else if get b ''asset'' = Str (lit ''USDT'') then Inr (Some b)
      else find_USDT bs)"

definition getUSDTBalance :: "(string \<Rightarrow> jsstring option) \<Rightarrow> world \<Rightarrow> request list
    \<Rightarrow> (js_error + jsnum) \<times> request list" where
  "getUSDTBalance penv w out =
     (let (account, out') = binanceGet penv w out ''/api/v3/account'' []
      in case account of
           Inl e \<Rightarrow> (Inl e, out')
         | Inr acc \<Rightarrow>
             (if \<not> truthy acc then (Inl (Error ''Unexpected Binance account response format''), out')
              else case get acc ''balances'' of
                     Arr bs \<Rightarrow>
                       (case find_USDT bs of
                          Inl e \<Rightarrow> (Inl e, out')
                        | Inr None \<Rightarrow> (Inr (Finite 0), out')
                        | Inr (Some usdtBalance) \<Rightarrow>
                            (Inr (ToNumber (js_or (get usdtBalance ''free'') (Num (Finite 0)))), out'))
                   | _ \<Rightarrow> (Inl (Error ''Unexpected Binance account response format''), out')))"

definition withdrawUSDT :: "(string \<Rightarrow> jsstring option) \<Rightarrow> world \<Rightarrow> request list
    \<Rightarrow> jsstring \<Rightarrow> jsnum \<Rightarrow> jsval \<Rightarrow> (js_error + jsval) \<times> request list" where
  "withdrawUSDT penv w out addr amt net =
     (if \<not> truthy net \<and> detectNetwork addr = None
      then (Inl (Error ''Unable to detect network from address format. Please specify network.''), out)
      else
        let detectedNetwork = (if truthy net then net else Str (the (detectNetwork addr)))
        in binancePost penv w out ''/sapi/v1/capital/withdraw/apply''
             [(''coin'', Str (lit ''USDT'')), (''network'', detectedNetwork),
              (''address'', Str addr), (''amount'', Num amt)])"

section \<open>The deposit endpoint\<close>

definition OFF_CHAIN_PREFIX :: jsstring where
  "OFF_CHAIN_PREFIX = lit ''Off-chain transfer ''"

definition normalizedTxId :: "jsstring \<Rightarrow> jsstring" where
  "normalizedTxId txIdTrimmed =
     (if startsWith txIdTrimmed OFF_CHAIN_PREFIX then txIdTrimmed
      else OFF_CHAIN_PREFIX @ txIdTrimmed)"

text \<open>\<open>getByTxId(normalizedTxId) || getByTxId(txIdTrimmed)\<close>.\<close>

definition existing :: "database \<Rightarrow> jsstring \<Rightarrow> tx_row option" where
  "existing d txIdTrimmed =
     (case getByTxId d (normalizedTxId txIdTrimmed) of
        Some r \<Rightarrow> Some r
      | None \<Rightarrow> getByTxId d txIdTrimmed)"

text \<open>The predicate of \<open>deposits.find\<close>.\<close>

definition matches :: "jsstring \<Rightarrow> jsval \<Rightarrow> bool" where
  "matches txIdTrimmed d =
     (truthy d
      \<and> (case get d ''txId'' of
            Str t \<Rightarrow> t = normalizedTxId txIdTrimmed \<or> trim t = normalizedTxId txIdTrimmed
                     \<or> t = txIdTrimmed \<or> trim t = txIdTrimmed
          | _ \<Rightarrow> False)
      \<and> ToNumber (get d ''status'') = Finite 1)"

text \<open>
  \<open>new Date(v).toISOString()\<close>: the time value of a number is the number truncated, when
  it is finite and within \<open>8.64e15\<close> ms of the epoch; an invalid date makes
  \<open>toISOString\<close> throw.
\<close>

definition TimeClip :: "jsnum \<Rightarrow> timestamp option" where
  "TimeClip n = (case n of
      Finite r \<Rightarrow> if \<bar>r\<bar> \<le> 8640000000000000 then Some (if 0 \<le> r then \<lfloor>r\<rfloor> else \<lceil>r\<rceil>) else None
    | _ \<Rightarrow> None)"

definition toISOString :: "world \<Rightarrow> jsval \<Rightarrow> js_error + timestamp" where
  "toISOString w v =
     (case TimeClip (case v of
                       Str _ \<Rightarrow> Date_parse w v
                     | Arr _ \<Rightarrow> Date_parse w v
                     | Obj _ \<Rightarrow> Date_parse w v
                     | _ \<Rightarrow> ToNumber v) of
        None \<Rightarrow> Inl RangeError
      | Some t \<Rightarrow> Inr t)"

text \<open>The \<open>catch\<close> block of the deposit handler.\<close>

definition in_development :: "(string \<Rightarrow> jsstring option) \<Rightarrow> bool" where
  "in_development penv = (penv ''NODE_ENV'' = Some (lit ''development''))"

definition deposit_catch :: "(string \<Rightarrow> jsstring option) \<Rightarrow> js_error \<Rightarrow> response" where
  "deposit_catch penv err =
     (let response = (case err of AxiosError _ r \<Rightarrow> r | _ \<Rightarrow> None);
          statusCode = (case response of None \<Rightarrow> None | Some (st, _) \<Rightarrow> Some st);
          binanceData = (case response of None \<Rightarrow> Undefined | Some (_, data) \<Rightarrow> data);
          binanceMsg = js_and binanceData (js_or (get binanceData ''msg'') (get binanceData ''message''))
      in if statusCode = Some 451 then RegionRestricted binanceMsg
         else VerificationError
                (js_or binanceMsg (Str (lit ''Failed to verify transaction with Binance'')))
                (if in_development penv then Some err else None))"

text \<open>The handler from the match on: the minimum-deposit gate, the reward, the insert.\<close>

definition settle :: "(string \<Rightarrow> jsstring option) \<Rightarrow> world \<Rightarrow> state \<Rightarrow> jsstring \<Rightarrow> jsval
    \<Rightarrow> response \<times> state" where
  "settle penv w s txIdTrimmed match =
     (let confirmedAmount = ToNumber (js_or (get match ''amount'') (Num (Finite 0)))
      in if js_gt (MIN_DEPOSIT_AMOUNT s) (Finite 0) \<and> js_lt confirmedAmount (MIN_DEPOSIT_AMOUNT s)
         then (AmountTooLow (MIN_DEPOSIT_AMOUNT s) confirmedAmount, s)
         else
           let reward = js_mul confirmedAmount (KES_PER_USDT s)
           in case toISOString w (js_or (get match ''insertTime'') (Num (now w))) of
                Inl err \<Rightarrow> (deposit_catch penv err, s)
              | Inr ts \<Rightarrow>
                  (case insert_row (db s) (normalizedTxId txIdTrimmed) (lit ''USDT'')
                          confirmedAmount reward ts of
                     Inl err \<Rightarrow> (deposit_catch penv err, s)
                   | Inr d \<Rightarrow> (DepositComplete confirmedAmount ts reward, s\<lparr>db := d\<rparr>)))"

text \<open>
  \<open>POST /api/deposit/txid\<close>. The handler waits once, for the deposit history; it goes on
  in the state that the other requests have left by then.
\<close>

definition post_deposit_txid :: "(string \<Rightarrow> jsstring option) \<Rightarrow> world \<Rightarrow> state \<Rightarrow> jsval
    \<Rightarrow> response \<times> state" where
  "post_deposit_txid penv w s body =
     (case get (body_of body) ''txId'' of
        Str raw \<Rightarrow>
          if raw = [] then (BadRequest ''txId is required'', s)
          else if trim raw = [] then (BadRequest ''txId is required'', s)
          else
            (case existing (db s) (trim raw) of
               Some r \<Rightarrow> (AlreadyUsed (amount r) (rewardKes r) (confirmedAt r), s)
             | None \<Rightarrow>
                 let (deposits, out) = getDepositHistory penv w (sent s) (Str (lit ''USDT''))
                                         Undefined Undefined (Num (Finite 1000));
                     s1 = concurrent w (s\<lparr>sent := out\<rparr>)
                 in case deposits of
                      Inl err \<Rightarrow> (deposit_catch penv err, s1)
                    | Inr ds \<Rightarrow>
                        (case find (matches (trim raw)) ds of
                           None \<Rightarrow> (NotFound, s1)
                         | Some match \<Rightarrow> settle penv w s1 (trim raw) match))
      | _ \<Rightarrow> (BadRequest ''txId is required'', s))"

section \<open>The withdrawal endpoint\<close>

text \<open>The checks before the \<open>try\<close> block: the trimmed address, the network, the amount if given.\<close>

definition withdraw_validate :: "jsval \<Rightarrow> response + (jsstring \<times> jsval \<times> jsnum option)" where
  "withdraw_validate body =
     (let amt = get (body_of body) ''amount''; net = get (body_of body) ''network''
      in case get (body_of body) ''address'' of
           Str addr \<Rightarrow>
             if addr = [] then Inl (BadRequest ''address is required'')
             else if trim addr = [] then Inl (BadRequest ''address is required'')
             else if \<not> truthy net \<and> detectNetwork (trim addr) = None
               then Inl (BadRequest ''Invalid address format. Supported networks: TRC20 (starts with T, 34 chars) or Solana (32-44 base58 chars)'')
             else if truthy net \<and> net \<noteq> Str (lit ''TRX'') \<and> net \<noteq> Str (lit ''SOL'')
               then Inl (BadRequest ''network must be 'TRX' (TRC20) or 'SOL' (Solana)'')
             else if \<not> nullish amt \<and> (isNaN (ToNumber amt) \<or> js_le (ToNumber amt) (Finite 0))
               then Inl (BadRequest ''amount must be a positive number (in USDT)'')
             else Inr (trim addr,
                       if truthy net then net else Str (the (detectNetwork (trim addr))),
                       if nullish amt then None else Some (ToNumber amt))
         | _ \<Rightarrow> Inl (BadRequest ''address is required''))"

text \<open>
  \<open>String(v).toLowerCase().includes(word)\<close> for the three words that are looked for
  (\<open>insufficient\<close>, \<open>balance\<close>, \<open>fund\<close>). The text of an array is its comma-joined
  elements, so a word lies in one of them; the texts of numbers, booleans and plain objects
  contain none of the words. Lower-casing is that of the letters \<open>A\<close> to \<open>Z\<close>: no other
  character's lower case completes one of the words.
\<close>

definition toLowerCase :: "jsstring \<Rightarrow> jsstring" where
  "toLowerCase s = map (\<lambda>c. if between CHR ''A'' CHR ''Z'' c then c + 32 else c) s"

definition str_includes :: "jsstring \<Rightarrow> jsstring \<Rightarrow> bool" where
  "str_includes s word = list_ex (\<lambda>i. take (length word) (drop i s) = word) [0..<Suc (length s)]"

fun mentions :: "jsval \<Rightarrow> jsstring \<Rightarrow> bool" where
  "mentions (Str s) word = str_includes (toLowerCase s) word"
| "mentions (Arr vs) word = list_ex (\<lambda>v. mentions v word) vs"
| "mentions _ word = False"

text \<open>The \<open>catch\<close> block of the withdrawal handler.\<close>

definition withdraw_catch :: "(string \<Rightarrow> jsstring option) \<Rightarrow> js_error \<Rightarrow> response" where
  "withdraw_catch penv err =
     (let detail = (if in_development penv then Some err else None)
      in case err of
           AxiosError msg (Some (st, binanceError)) \<Rightarrow>
             if truthy binanceError then
               let errorMsg = js_or (get binanceError ''msg'')
                                (js_or (get binanceError ''message'') (Str msg))
               in if mentions errorMsg (lit ''insufficient'') \<or> mentions errorMsg (lit ''balance'')
                     \<or> mentions errorMsg (lit ''fund'')
                  then UpstreamInsufficientFunds
                         (js_or (get binanceError ''msg'') (Str (lit ''Insufficient funds'')))
                  else WithdrawalError
                         (js_or (get binanceError ''msg'') (Str (lit ''Withdrawal failed''))) detail
             else WithdrawalError (Str (lit ''Failed to process withdrawal'')) detail
         | _ \<Rightarrow> WithdrawalError (Str (lit ''Failed to process withdrawal'')) detail)"

text \<open>
  The \<open>try\<close> block: the balance, the two gates, the withdrawal. The handler waits twice,
  for the balance and for the withdrawal.
\<close>

definition withdraw_run :: "(string \<Rightarrow> jsstring option) \<Rightarrow> world \<Rightarrow> state \<Rightarrow> jsstring \<Rightarrow> jsval
    \<Rightarrow> jsnum option \<Rightarrow> response \<times> state" where
  "withdraw_run penv w s addressTrimmed detectedNetwork withdrawalAmount =
     (let (balance, out1) = getUSDTBalance penv w (sent s);
          s1 = concurrent w (s\<lparr>sent := out1\<rparr>)
      in case balance of
           Inl err \<Rightarrow> (withdraw_catch penv err, s1)
         | Inr availableAmount \<Rightarrow>
             if js_le availableAmount (Finite 0) then (NoFunds, s1)
             else
               let finalAmount = (case withdrawalAmount of None \<Rightarrow> availableAmount | Some a \<Rightarrow> a)
               in if js_lt finalAmount (MIN_WITHDRAWAL_AMOUNT s1)
                  then (BelowMinimum finalAmount (MIN_WITHDRAWAL_AMOUNT s1), s1)
                  else if js_gt finalAmount availableAmount
                  then (InsufficientFunds finalAmount availableAmount, s1)
                  else
                    let (result, out2) = withdrawUSDT penv w (sent s1) addressTrimmed finalAmount
                                           detectedNetwork;
                        s2 = concurrent w (s1\<lparr>sent := out2\<rparr>)
                    in case result of
                         Inl err \<Rightarrow> (withdraw_catch penv err, s2)
                       | Inr res \<Rightarrow>
                           if nullish res then (withdraw_catch penv TypeError, s2)
                           else (WithdrawalComplete (get res ''id'') finalAmount addressTrimmed
                                   detectedNetwork, s2))"

definition post_withdraw :: "(string \<Rightarrow> jsstring option) \<Rightarrow> world \<Rightarrow> state \<Rightarrow> jsval
    \<Rightarrow> response \<times> state" where
  "post_withdraw penv w s body =
     (case withdraw_validate body of
        Inl r \<Rightarrow> (r, s)
      | Inr (addressTrimmed, detectedNetwork, withdrawalAmount) \<Rightarrow>
          withdraw_run penv w s addressTrimmed detectedNetwork withdrawalAmount)"

section \<open>Ranges of the tunables\<close>

text \<open>
  The ranges of the three tunables, in words: a positive number and a non-negative number
  (neither is NaN; \<open>Infinity\<close> is a number), and a positive finite number.
\<close>

definition positive :: "jsnum \<Rightarrow> bool" where
  "positive n = (case n of Finite r \<Rightarrow> 0 < r | Infinity \<Rightarrow> True | _ \<Rightarrow> False)"

definition non_negative :: "jsnum \<Rightarrow> bool" where
  "non_negative n = (case n of Finite r \<Rightarrow> 0 \<le> r | Infinity \<Rightarrow> True | _ \<Rightarrow> False)"

definition positive_finite :: "jsnum \<Rightarrow> bool" where
  "positive_finite n = (case n of Finite r \<Rightarrow> 0 < r | _ \<Rightarrow> False)"

definition tunables_ok :: "state \<Rightarrow> bool" where
  "tunables_ok s = (positive (KES_PER_USDT s) \<and> non_negative (MIN_DEPOSIT_AMOUNT s)
                    \<and> positive (MIN_WITHDRAWAL_AMOUNT s))"

section \<open>Example states and environments\<close>

text \<open>A new database file, and the state of a first start with no environment variable set.\<close>

definition new_database :: database where
  "new_database = \<lparr>processed_transactions = [], settings = [], sequence = 0, write_ok = True\<rparr>"

definition first_state :: state where
  "first_state =
     \<lparr>KES_PER_USDT = Finite 150, MIN_DEPOSIT_AMOUNT = Finite 0, MIN_WITHDRAWAL_AMOUNT = Finite 10,
      db = \<lparr>processed_transactions = [],
            settings = [(''KES_PER_USDT'', NumberText (Finite 150)),
                        (''MIN_DEPOSIT_AMOUNT'', NumberText (Finite 0)),
                        (''MIN_WITHDRAWAL_AMOUNT'', NumberText (Finite 10))],
            sequence = 0, write_ok = True\<rparr>,
      sent = []\<rparr>"

text \<open>The first state again, with a database file that cannot be written.\<close>

definition unwritable_state :: state where
  "unwritable_state = first_state\<lparr>db := (db first_state)\<lparr>write_ok := False\<rparr>\<rparr>"

text \<open>An environment with both credentials set, and one with the key only.\<close>

definition with_credentials :: "string \<Rightarrow> jsstring option" where
  "with_credentials k =
     (if k = ''BINANCE_API_KEY'' then Some (lit ''example-api-key'')
      else if k = ''BINANCE_API_SECRET'' then Some (lit ''example-api-secret'')
      else None)"

definition key_only :: "string \<Rightarrow> jsstring option" where
  "key_only k =
     (if k = ''BINANCE_API_KEY'' then Some (lit ''example-api-key'')
      else None)"

text \<open>
  An exchange that answers the deposit history with the given records, the account with
  the given free USDT balance, and a withdrawal with an identifier; no other request is in
  flight. (No example gives a date as text.)
\<close>

definition exchange :: "jsval list \<Rightarrow> jsstring \<Rightarrow> world" where
  "exchange deposits free =
     \<lparr>answer = (\<lambda>r.
        if path r = ''/sapi/v1/capital/deposit/hisrec'' then Inr (Arr deposits)
        else if path r = ''/api/v3/account''
          then Inr (Obj [(''balances'',
                 Arr [Obj [(''asset'', Str (lit ''BTC'')), (''free'', Str (lit ''0.00000000''))],
                      Obj [(''asset'', Str (lit ''USDT'')), (''free'', Str free)]])])
        else Inr (Obj [(''id'', Str (lit ''7213fea8e94b4a5593d507237e5a555b''))])),
      now = Finite 1769069500000,
      Date_parse = (\<lambda>_. NaN),
      concurrent = (\<lambda>s. s)\<rparr>"

text \<open>A deposit record as the exchange lists it.\<close>

definition deposit_record :: "jsstring \<Rightarrow> jsval \<Rightarrow> jsval" where
  "deposit_record t a =
     Obj [(''id'', Str (lit ''769800519366885376'')), (''amount'', a), (''coin'', Str (lit ''USDT'')),
          (''network'', Str (lit ''TRX'')), (''status'', Num (Finite 1)), (''txId'', Str t),
          (''insertTime'', Num (Finite 1769069484000))]"


text \<open>The request sent for the deposit history.\<close>

definition history_request :: request where
  "history_request =
     signed GET ''/sapi/v1/capital/deposit/hisrec''
       [(''coin'', Str (lit ''USDT'')), (''limit'', Num (Finite 1000))] (Finite 1769069500000)"

text \<open>
  The same surroundings when, while the handler waits for the exchange, a second
  submission with body \<open>b\<close> is served from its lookup to its response.
\<close>

definition racing :: "(string \<Rightarrow> jsstring option) \<Rightarrow> world \<Rightarrow> jsval \<Rightarrow> world" where
  "racing penv w b = w\<lparr>concurrent := (\<lambda>s. snd (post_deposit_txid penv w s b))\<rparr>"

text \<open>The first state after \<open>POST /api/rate\<close> with \<open>{ "rate": "Infinity" }\<close>.\<close>

definition rate_infinity :: state where
  "rate_infinity = snd (post_rate first_state (Obj [(''rate'', Str (lit ''Infinity''))]))"

text \<open>A confirmed deposit record that has no \<open>amount\<close>.\<close>

definition record_without_amount :: "jsstring \<Rightarrow> jsval" where
  "record_without_amount t =
     Obj [(''id'', Str (lit ''769800519366885376'')), (''coin'', Str (lit ''USDT'')),
          (''network'', Str (lit ''TRX'')), (''status'', Num (Finite 1)), (''txId'', Str t),
          (''insertTime'', Num (Finite 1769069484000))]"

text \<open>The first state after \<open>POST /api/rate\<close> with \<open>{ "rate": 3 }\<close>.\<close>

definition rate_3 :: state where
  "rate_3 = snd (post_rate first_state (Obj [(''rate'', Num (Finite 3))]))"

text \<open>
  The same surroundings when, while the handler waits for the exchange, a
  \<open>POST /api/rate\<close> with body \<open>b\<close> is served.
\<close>

definition rate_posted :: "world \<Rightarrow> jsval \<Rightarrow> world" where
  "rate_posted w b = w\<lparr>concurrent := (\<lambda>s. snd (post_rate s b))\<rparr>"

text \<open>
  The first state after the claim \<open>344178838453\<close> has been settled for a confirmed
  deposit of 9.
\<close>

definition settled_9 :: state where
  "settled_9 = snd (post_deposit_txid with_credentials
       (exchange [deposit_record (lit ''Off-chain transfer 344178838453'') (Str (lit ''9''))] [])
       first_state (Obj [(''txId'', Str (lit ''344178838453''))]))"



section \<open>Properties\<close>

subsection \<open>Network detection\<close>

lemma isTRC20_family_A: "isTRC20 a = family_A a"
  by (cases a) (auto simp: isTRC20_def family_A_def)

lemma isSolana_family_B: "isSolana a = family_B a"
  by (simp add: isSolana_def family_B_def)

text \<open>
  C7 (as amended). A 34-character address that starts with \<open>T\<close> and continues with
  characters of \<open>[A-Za-z1-9]\<close> is classified \<open>TRX\<close>; an address of 32 to 44 base-58
  characters that is not of the first shape is classified \<open>SOL\<close>; detection fails exactly
  for the addresses of neither shape; an address of both shapes is classified \<open>TRX\<close>,
  because the first test is tried first.
\<close>

theorem detectNetwork_families:
  "(family_A a \<longrightarrow> detectNetwork a = Some (lit ''TRX''))
   \<and> (family_B a \<and> \<not> family_A a \<longrightarrow> detectNetwork a = Some (lit ''SOL''))
   \<and> (detectNetwork a = None \<longleftrightarrow> \<not> family_A a \<and> \<not> family_B a)
   \<and> (family_A a \<and> family_B a \<longrightarrow> detectNetwork a = Some (lit ''TRX''))"
  by (simp add: detectNetwork_def isTRC20_family_A isSolana_family_B)

theorem detectNetwork_families_witness:
  "family_A (lit ''TR7NHqjeKQxGTCi8q8ZY4pL8otSzgjLj6t'')
   \<and> family_B (lit ''TR7NHqjeKQxGTCi8q8ZY4pL8otSzgjLj6t'')
   \<and> detectNetwork (lit ''TR7NHqjeKQxGTCi8q8ZY4pL8otSzgjLj6t'') = Some (lit ''TRX'')
   \<and> family_B (lit ''7EcDhSYGxXyscszYEp35KHN8vvw3svAuLKTzXwCFLtV'')
   \<and> \<not> family_A (lit ''7EcDhSYGxXyscszYEp35KHN8vvw3svAuLKTzXwCFLtV'')
   \<and> detectNetwork (lit ''7EcDhSYGxXyscszYEp35KHN8vvw3svAuLKTzXwCFLtV'') = Some (lit ''SOL'')
   \<and> \<not> family_A (lit ''0x52908400098527886E0F7030069857D2E4169EE7'')
   \<and> \<not> family_B (lit ''0x52908400098527886E0F7030069857D2E4169EE7'')
   \<and> detectNetwork (lit ''0x52908400098527886E0F7030069857D2E4169EE7'') = None"
proof -
  have trx: "family_A (lit ''TR7NHqjeKQxGTCi8q8ZY4pL8otSzgjLj6t'')"
    by (simp add: family_A_def lit_def trc20_char_def between_def)
  have trx_b: "family_B (lit ''TR7NHqjeKQxGTCi8q8ZY4pL8otSzgjLj6t'')"
    by (simp add: family_B_def lit_def base58_char_def between_def)
  have sol: "family_B (lit ''7EcDhSYGxXyscszYEp35KHN8vvw3svAuLKTzXwCFLtV'')"
    by (simp add: family_B_def lit_def base58_char_def between_def)
  have sol_a: "\<not> family_A (lit ''7EcDhSYGxXyscszYEp35KHN8vvw3svAuLKTzXwCFLtV'')"
    by (simp add: family_A_def lit_def)
  have eth_a: "\<not> family_A (lit ''0x52908400098527886E0F7030069857D2E4169EE7'')"
    by (simp add: family_A_def lit_def)
  have eth_b: "\<not> family_B (lit ''0x52908400098527886E0F7030069857D2E4169EE7'')"
    by (simp add: family_B_def lit_def base58_char_def between_def)
  have r1: "detectNetwork (lit ''TR7NHqjeKQxGTCi8q8ZY4pL8otSzgjLj6t'') = Some (lit ''TRX'')"
    using detectNetwork_families [of "lit ''TR7NHqjeKQxGTCi8q8ZY4pL8otSzgjLj6t''"] trx
    by (elim conjE) (rule mp)
  have r2: "detectNetwork (lit ''7EcDhSYGxXyscszYEp35KHN8vvw3svAuLKTzXwCFLtV'') = Some (lit ''SOL'')"
    using detectNetwork_families [of "lit ''7EcDhSYGxXyscszYEp35KHN8vvw3svAuLKTzXwCFLtV''"] sol sol_a
    by (elim conjE) (erule mp, rule conjI)
  have r3: "detectNetwork (lit ''0x52908400098527886E0F7030069857D2E4169EE7'') = None"
    using detectNetwork_families [of "lit ''0x52908400098527886E0F7030069857D2E4169EE7''"] eth_a eth_b
    by (elim conjE) (erule iffD2, rule conjI)
  show ?thesis
    using trx trx_b sol sol_a eth_a eth_b r1 r2 r3 by (intro conjI)
qed

text \<open>
  The address of a TRON contract has both shapes (its characters are base-58 and it has 34
  of them): it is classified \<open>TRX\<close>; detection does not fail and does not answer \<open>SOL\<close>.
\<close>

theorem detectNetwork_both_shapes_counterexample:
  "isTRC20 (lit ''TR7NHqjeKQxGTCi8q8ZY4pL8otSzgjLj6t'')
   \<and> isSolana (lit ''TR7NHqjeKQxGTCi8q8ZY4pL8otSzgjLj6t'')
   \<and> detectNetwork (lit ''TR7NHqjeKQxGTCi8q8ZY4pL8otSzgjLj6t'') = Some (lit ''TRX'')"
  by (simp add: detectNetwork_def isTRC20_def isSolana_def lit_def trc20_char_def
      base58_char_def between_def)

subsection \<open>The tunables\<close>

lemma js_gt_positive: "js_gt n (Finite 0) = positive n"
  by (cases n) (simp_all add: js_gt_def positive_def)

lemma js_le_non_negative: "js_le (Finite 0) n = non_negative n"
  by (cases n) (auto simp: js_le_def non_negative_def)

lemma not_js_le_positive: "\<not> isNaN n \<Longrightarrow> \<not> js_le n (Finite 0) \<Longrightarrow> positive n"
  by (cases n) (auto simp: js_le_def positive_def)

lemma not_js_lt_non_negative: "\<not> isNaN n \<Longrightarrow> \<not> js_lt n (Finite 0) \<Longrightarrow> non_negative n"
  by (cases n) (auto simp: non_negative_def)

lemma init_KES_PER_USDT_positive:
  "init_KES_PER_USDT penv d = Inr (n, d') \<Longrightarrow> positive n"
  by (auto simp: init_KES_PER_USDT_def Let_def js_gt_positive positive_def
      split: if_splits sum.splits)

lemma init_MIN_DEPOSIT_AMOUNT_non_negative:
  "init_MIN_DEPOSIT_AMOUNT penv d = Inr (n, d') \<Longrightarrow> non_negative n"
  by (auto simp: init_MIN_DEPOSIT_AMOUNT_def Let_def js_le_non_negative non_negative_def
      split: if_splits sum.splits)

lemma init_MIN_WITHDRAWAL_AMOUNT_positive:
  "init_MIN_WITHDRAWAL_AMOUNT penv d = Inr (n, d') \<Longrightarrow> positive n"
  by (auto simp: init_MIN_WITHDRAWAL_AMOUNT_def Let_def js_gt_positive positive_def
      split: if_splits sum.splits)

lemma startup_tunables_ok: "startup penv d = Inr s \<Longrightarrow> tunables_ok s"
  by (auto simp: startup_def tunables_ok_def split: sum.splits prod.splits
      dest: init_KES_PER_USDT_positive init_MIN_DEPOSIT_AMOUNT_non_negative
        init_MIN_WITHDRAWAL_AMOUNT_positive)

lemma post_rate_tunables_ok: "tunables_ok s \<Longrightarrow> tunables_ok (snd (post_rate s b))"
  by (auto simp: post_rate_def Let_def tunables_ok_def not_js_le_positive split: sum.splits)

lemma post_min_deposit_tunables_ok: "tunables_ok s \<Longrightarrow> tunables_ok (snd (post_min_deposit s b))"
  by (auto simp: post_min_deposit_def Let_def tunables_ok_def not_js_lt_non_negative
      split: sum.splits)

lemma post_min_withdrawal_tunables_ok:
  "tunables_ok s \<Longrightarrow> tunables_ok (snd (post_min_withdrawal s b))"
  by (auto simp: post_min_withdrawal_def Let_def tunables_ok_def not_js_le_positive
      split: sum.splits)

lemma serve_config_tunables_ok: "tunables_ok s \<Longrightarrow> tunables_ok (snd (serve_config s r))"
  by (cases r)
    (simp_all add: post_rate_tunables_ok post_min_deposit_tunables_ok
      post_min_withdrawal_tunables_ok get_rate_def get_min_deposit_def get_min_withdrawal_def)

lemma serve_all_tunables_ok: "tunables_ok s \<Longrightarrow> tunables_ok (serve_all s rs)"
  by (induction rs arbitrary: s) (simp_all add: serve_config_tunables_ok)

lemma serve_config_rejected:
  "fst (serve_config s r) = BadRequest m \<Longrightarrow> snd (serve_config s r) = s"
  by (cases r)
    (auto simp: post_rate_def post_min_deposit_def post_min_withdrawal_def get_rate_def
      get_min_deposit_def get_min_withdrawal_def Let_def split: sum.splits if_splits)

lemma startup_first_state: "startup (\<lambda>_. None) new_database = Inr first_state"
  by code_simp

text \<open>
  C9 (as amended). After start-up and after any sequence of requests to the configuration
  endpoints, the exchange rate is a positive number, the minimum deposit a non-negative
  number and the minimum withdrawal a positive number (none is NaN; each may be
  \<open>Infinity\<close>); a request answered 400 leaves the state as it was.
\<close>

theorem tunables_invariant:
  assumes "startup penv d = Inr s0"
  shows "tunables_ok (serve_all s0 rs)
     \<and> (\<forall>r m. fst (serve_config (serve_all s0 rs) r) = BadRequest m
            \<longrightarrow> snd (serve_config (serve_all s0 rs) r) = serve_all s0 rs)"
  using assms by (simp add: startup_tunables_ok serve_all_tunables_ok serve_config_rejected)

theorem tunables_invariant_witness:
  "startup (\<lambda>_. None) new_database = Inr first_state
   \<and> tunables_ok (serve_all first_state
         [POST_rate (Obj [(''rate'', Num (Finite 129))]), GET_rate,
          POST_min_deposit (Obj [(''minDepositAmount'', Num (Finite 5))])])
   \<and> fst (serve_config (serve_all first_state
         [POST_rate (Obj [(''rate'', Num (Finite 129))]), GET_rate,
          POST_min_deposit (Obj [(''minDepositAmount'', Num (Finite 5))])])
        (POST_rate (Obj [(''rate'', Num (Finite (- 1)))])))
      = BadRequest ''rate must be a positive number''
   \<and> snd (serve_config (serve_all first_state
         [POST_rate (Obj [(''rate'', Num (Finite 129))]), GET_rate,
          POST_min_deposit (Obj [(''minDepositAmount'', Num (Finite 5))])])
        (POST_rate (Obj [(''rate'', Num (Finite (- 1)))])))
      = serve_all first_state
         [POST_rate (Obj [(''rate'', Num (Finite 129))]), GET_rate,
          POST_min_deposit (Obj [(''minDepositAmount'', Num (Finite 5))])]"
proof -
  let ?rs = "[POST_rate (Obj [(''rate'', Num (Finite 129))]), GET_rate,
          POST_min_deposit (Obj [(''minDepositAmount'', Num (Finite 5))])]"
  let ?r = "POST_rate (Obj [(''rate'', Num (Finite (- 1)))])"
  have rej: "fst (serve_config (serve_all first_state ?rs) ?r)
      = BadRequest ''rate must be a positive number''"
    by (simp add: post_rate_def body_of_def js_le_def)
  from tunables_invariant [OF startup_first_state, of ?rs] rej startup_first_state
  show ?thesis by blast
qed

text \<open>
  A rate given as the JSON string \<open>"Infinity"\<close> is accepted: the rate then is not a
  finite number.
\<close>

theorem tunables_finite_counterexample:
  "fst (post_rate first_state (Obj [(''rate'', Str (lit ''Infinity''))])) = Rate Infinity
   \<and> KES_PER_USDT (snd (post_rate first_state (Obj [(''rate'', Str (lit ''Infinity''))]))) = Infinity
   \<and> \<not> positive_finite
         (KES_PER_USDT (serve_all first_state [POST_rate (Obj [(''rate'', Str (lit ''Infinity''))])]))"
  by code_simp

lemma map_of_upsert: "map_of (upsert k v kvs) k = Some v"
  by (induction kvs) auto

lemma post_rate_accepted:
  "(\<forall>m. fst (post_rate s b) \<noteq> BadRequest m) \<longrightarrow>
     KES_PER_USDT (snd (post_rate s b)) = ToNumber (get (body_of b) ''rate'')
     \<and> (write_ok (db s) \<longrightarrow>
          fst (post_rate s b) = Rate (ToNumber (get (body_of b) ''rate''))
          \<and> getSetting (db (snd (post_rate s b))) ''KES_PER_USDT''
              = Some (NumberText (ToNumber (get (body_of b) ''rate''))))
     \<and> (\<not> write_ok (db s) \<longrightarrow>
          fst (post_rate s b) = Uncaught (SqliteError SQLITE_IOERR)
          \<and> db (snd (post_rate s b)) = db s)"
  by (auto simp: post_rate_def Let_def setSetting_def getSetting_def map_of_upsert
      split: if_splits)

lemma post_min_deposit_accepted:
  "(\<forall>m. fst (post_min_deposit s b) \<noteq> BadRequest m) \<longrightarrow>
     MIN_DEPOSIT_AMOUNT (snd (post_min_deposit s b))
        = ToNumber (get (body_of b) ''minDepositAmount'')
     \<and> (write_ok (db s) \<longrightarrow>
          fst (post_min_deposit s b)
            = MinDepositAmount (ToNumber (get (body_of b) ''minDepositAmount''))
          \<and> getSetting (db (snd (post_min_deposit s b))) ''MIN_DEPOSIT_AMOUNT''
              = Some (NumberText (ToNumber (get (body_of b) ''minDepositAmount''))))
     \<and> (\<not> write_ok (db s) \<longrightarrow>
          fst (post_min_deposit s b) = Uncaught (SqliteError SQLITE_IOERR)
          \<and> db (snd (post_min_deposit s b)) = db s)"
  by (auto simp: post_min_deposit_def Let_def setSetting_def getSetting_def map_of_upsert
      split: if_splits)

lemma post_min_withdrawal_accepted:
  "(\<forall>m. fst (post_min_withdrawal s b) \<noteq> BadRequest m) \<longrightarrow>
     MIN_WITHDRAWAL_AMOUNT (snd (post_min_withdrawal s b))
        = ToNumber (get (body_of b) ''minWithdrawalAmount'')
     \<and> (write_ok (db s) \<longrightarrow>
          fst (post_min_withdrawal s b)
            = MinWithdrawalAmount (ToNumber (get (body_of b) ''minWithdrawalAmount''))
          \<and> getSetting (db (snd (post_min_withdrawal s b))) ''MIN_WITHDRAWAL_AMOUNT''
              = Some (NumberText (ToNumber (get (body_of b) ''minWithdrawalAmount''))))
     \<and> (\<not> write_ok (db s) \<longrightarrow>
          fst (post_min_withdrawal s b) = Uncaught (SqliteError SQLITE_IOERR)
          \<and> db (snd (post_min_withdrawal s b)) = db s)"
  by (auto simp: post_min_withdrawal_def Let_def setSetting_def getSetting_def map_of_upsert
      split: if_splits)

text \<open>
  C5 (as amended). An update that is not rejected assigns the new value to the variable in
  memory and then writes it to the store. When the write succeeds, the response carries the
  new value and the store holds it; when the write fails, the error leaves the handler, the
  store is as before, and the variable in memory holds the new value.
\<close>

theorem config_update_order:
  "((\<forall>m. fst (post_rate s b) \<noteq> BadRequest m) \<longrightarrow>
      KES_PER_USDT (snd (post_rate s b)) = ToNumber (get (body_of b) ''rate'')
      \<and> (write_ok (db s) \<longrightarrow>
          fst (post_rate s b) = Rate (ToNumber (get (body_of b) ''rate''))
          \<and> getSetting (db (snd (post_rate s b))) ''KES_PER_USDT''
              = Some (NumberText (ToNumber (get (body_of b) ''rate''))))
      \<and> (\<not> write_ok (db s) \<longrightarrow>
          fst (post_rate s b) = Uncaught (SqliteError SQLITE_IOERR)
          \<and> db (snd (post_rate s b)) = db s))
   \<and> ((\<forall>m. fst (post_min_deposit s b) \<noteq> BadRequest m) \<longrightarrow>
      MIN_DEPOSIT_AMOUNT (snd (post_min_deposit s b))
        = ToNumber (get (body_of b) ''minDepositAmount'')
      \<and> (write_ok (db s) \<longrightarrow>
          fst (post_min_deposit s b)
            = MinDepositAmount (ToNumber (get (body_of b) ''minDepositAmount''))
          \<and> getSetting (db (snd (post_min_deposit s b))) ''MIN_DEPOSIT_AMOUNT''
              = Some (NumberText (ToNumber (get (body_of b) ''minDepositAmount''))))
      \<and> (\<not> write_ok (db s) \<longrightarrow>
          fst (post_min_deposit s b) = Uncaught (SqliteError SQLITE_IOERR)
          \<and> db (snd (post_min_deposit s b)) = db s))
   \<and> ((\<forall>m. fst (post_min_withdrawal s b) \<noteq> BadRequest m) \<longrightarrow>
      MIN_WITHDRAWAL_AMOUNT (snd (post_min_withdrawal s b))
        = ToNumber (get (body_of b) ''minWithdrawalAmount'')
      \<and> (write_ok (db s) \<longrightarrow>
          fst (post_min_withdrawal s b)
            = MinWithdrawalAmount (ToNumber (get (body_of b) ''minWithdrawalAmount''))
          \<and> getSetting (db (snd (post_min_withdrawal s b))) ''MIN_WITHDRAWAL_AMOUNT''
              = Some (NumberText (ToNumber (get (body_of b) ''minWithdrawalAmount''))))
      \<and> (\<not> write_ok (db s) \<longrightarrow>
          fst (post_min_withdrawal s b) = Uncaught (SqliteError SQLITE_IOERR)
          \<and> db (snd (post_min_withdrawal s b)) = db s))"
  by (intro conjI post_rate_accepted post_min_deposit_accepted post_min_withdrawal_accepted)

theorem config_update_order_witness:
  "(\<forall>m. fst (post_rate first_state
        (Obj [(''rate'', Num (Finite 129)), (''minDepositAmount'', Num (Finite 5)),
              (''minWithdrawalAmount'', Num (Finite 20))])) \<noteq> BadRequest m)
   \<and> write_ok (db first_state)
   \<and> fst (post_rate first_state
        (Obj [(''rate'', Num (Finite 129)), (''minDepositAmount'', Num (Finite 5)),
              (''minWithdrawalAmount'', Num (Finite 20))])) = Rate (Finite 129)
   \<and> getSetting (db (snd (post_rate first_state
        (Obj [(''rate'', Num (Finite 129)), (''minDepositAmount'', Num (Finite 5)),
              (''minWithdrawalAmount'', Num (Finite 20))])))) ''KES_PER_USDT''
       = Some (NumberText (Finite 129))
   \<and> (\<forall>m. fst (post_min_deposit unwritable_state
        (Obj [(''rate'', Num (Finite 129)), (''minDepositAmount'', Num (Finite 5)),
              (''minWithdrawalAmount'', Num (Finite 20))])) \<noteq> BadRequest m)
   \<and> \<not> write_ok (db unwritable_state)
   \<and> MIN_DEPOSIT_AMOUNT (snd (post_min_deposit unwritable_state
        (Obj [(''rate'', Num (Finite 129)), (''minDepositAmount'', Num (Finite 5)),
              (''minWithdrawalAmount'', Num (Finite 20))]))) = Finite 5
   \<and> db (snd (post_min_deposit unwritable_state
        (Obj [(''rate'', Num (Finite 129)), (''minDepositAmount'', Num (Finite 5)),
              (''minWithdrawalAmount'', Num (Finite 20))]))) = db unwritable_state
   \<and> (\<forall>m. fst (post_min_withdrawal first_state
        (Obj [(''rate'', Num (Finite 129)), (''minDepositAmount'', Num (Finite 5)),
              (''minWithdrawalAmount'', Num (Finite 20))])) \<noteq> BadRequest m)
   \<and> MIN_WITHDRAWAL_AMOUNT (snd (post_min_withdrawal first_state
        (Obj [(''rate'', Num (Finite 129)), (''minDepositAmount'', Num (Finite 5)),
              (''minWithdrawalAmount'', Num (Finite 20))]))) = Finite 20"
proof -
  let ?b = "Obj [(''rate'', Num (Finite 129)), (''minDepositAmount'', Num (Finite 5)),
              (''minWithdrawalAmount'', Num (Finite 20))]"
  have a1: "\<forall>m. fst (post_rate first_state ?b) \<noteq> BadRequest m"
    by (simp add: post_rate_def Let_def body_of_def js_le_def setSetting_def first_state_def)
  have a2: "\<forall>m. fst (post_min_deposit unwritable_state ?b) \<noteq> BadRequest m"
    by (simp add: post_min_deposit_def Let_def body_of_def setSetting_def unwritable_state_def
        first_state_def)
  have a3: "\<forall>m. fst (post_min_withdrawal first_state ?b) \<noteq> BadRequest m"
    by (simp add: post_min_withdrawal_def Let_def body_of_def js_le_def setSetting_def first_state_def)
  have w1: "write_ok (db first_state)"
    by (simp add: first_state_def)
  have w2: "\<not> write_ok (db unwritable_state)"
    by (simp add: unwritable_state_def first_state_def)
  have v: "ToNumber (get (body_of ?b) ''rate'') = Finite 129"
    "ToNumber (get (body_of ?b) ''minDepositAmount'') = Finite 5"
    "ToNumber (get (body_of ?b) ''minWithdrawalAmount'') = Finite 20"
    by (simp_all add: body_of_def)
  from config_update_order [of first_state ?b] config_update_order [of unwritable_state ?b]
    a1 a2 a3 w1 w2
  show ?thesis unfolding v by blast
qed

text \<open>
  With a database file that cannot be written, an update of the rate from 150 to 129 fails
  with the driver's error, the store keeps 150, and the variable in memory holds 129.
\<close>

theorem config_update_order_counterexample:
  "fst (post_rate unwritable_state (Obj [(''rate'', Num (Finite 129))]))
     = Uncaught (SqliteError SQLITE_IOERR)
   \<and> getSetting (db (snd (post_rate unwritable_state (Obj [(''rate'', Num (Finite 129))]))))
        ''KES_PER_USDT'' = Some (NumberText (Finite 150))
   \<and> KES_PER_USDT (snd (post_rate unwritable_state (Obj [(''rate'', Num (Finite 129))])))
     = Finite 129
   \<and> fst (get_rate (snd (post_rate unwritable_state (Obj [(''rate'', Num (Finite 129))]))))
     = Rate (Finite 129)"
  by (simp add: post_rate_def Let_def get_rate_def body_of_def js_le_def setSetting_def getSetting_def
      unwritable_state_def first_state_def)

subsection \<open>The exchange client\<close>

lemma credentials_missing_iff:
  "credentials_missing penv \<longleftrightarrow>
     penv ''BINANCE_API_KEY'' = None \<or> penv ''BINANCE_API_KEY'' = Some []
     \<or> penv ''BINANCE_API_SECRET'' = None \<or> penv ''BINANCE_API_SECRET'' = Some []"
  by (auto simp: credentials_missing_def env_truthy_def split: option.splits)

text \<open>
  C8. While the API key or the API secret is absent (unset or empty), every call through
  the signed client (\<open>binanceGet\<close>, \<open>binancePost\<close>, and through them the deposit
  history, the account balance and the withdrawal submission) fails with the
  not-configured error, and the list of requests sent is what it was before the call.
\<close>

theorem not_configured_before_io:
  assumes "penv ''BINANCE_API_KEY'' = None \<or> penv ''BINANCE_API_KEY'' = Some []
     \<or> penv ''BINANCE_API_SECRET'' = None \<or> penv ''BINANCE_API_SECRET'' = Some []"
  shows "binanceGet penv w out p ps
        = (Inl (Error ''Binance API credentials are not configured''), out)
     \<and> binancePost penv w out p ps
        = (Inl (Error ''Binance API credentials are not configured''), out)
     \<and> getDepositHistory penv w out coin startTime endTime limit
        = (Inl (Error ''Binance API credentials are not configured''), out)
     \<and> getUSDTBalance penv w out
        = (Inl (Error ''Binance API credentials are not configured''), out)
     \<and> (truthy net \<or> detectNetwork addr \<noteq> None \<longrightarrow>
          withdrawUSDT penv w out addr amt net
          = (Inl (Error ''Binance API credentials are not configured''), out))"
proof -
  from assms have m: "credentials_missing penv"
    by (simp add: credentials_missing_iff)
  then have g: "\<And>p ps. binanceGet penv w out p ps
        = (Inl (Error ''Binance API credentials are not configured''), out)"
    and po: "\<And>p ps. binancePost penv w out p ps
        = (Inl (Error ''Binance API credentials are not configured''), out)"
    by (simp_all add: binanceGet_def binancePost_def)
  show ?thesis
    by (auto simp: g po getDepositHistory_def getUSDTBalance_def withdrawUSDT_def Let_def)
qed

theorem not_configured_before_io_witness:
  "key_only ''BINANCE_API_SECRET'' = None
   \<and> binanceGet key_only (exchange [] (lit ''50.00000000'')) [] ''/api/v3/account'' []
        = (Inl (Error ''Binance API credentials are not configured''), [])
   \<and> getDepositHistory key_only (exchange [] (lit ''50.00000000'')) [] (Str (lit ''USDT''))
          Undefined Undefined (Num (Finite 1000))
        = (Inl (Error ''Binance API credentials are not configured''), [])
   \<and> getUSDTBalance key_only (exchange [] (lit ''50.00000000'')) []
        = (Inl (Error ''Binance API credentials are not configured''), [])
   \<and> truthy (Str (lit ''TRX''))
   \<and> withdrawUSDT key_only (exchange [] (lit ''50.00000000'')) []
          (lit ''TR7NHqjeKQxGTCi8q8ZY4pL8otSzgjLj6t'') (Finite 20) (Str (lit ''TRX''))
        = (Inl (Error ''Binance API credentials are not configured''), [])"
proof -
  have a: "key_only ''BINANCE_API_SECRET'' = None"
    by (simp add: key_only_def)
  have t: "truthy (Str (lit ''TRX''))"
    by (simp add: lit_def)
  from a have h: "key_only ''BINANCE_API_KEY'' = None \<or> key_only ''BINANCE_API_KEY'' = Some []
     \<or> key_only ''BINANCE_API_SECRET'' = None \<or> key_only ''BINANCE_API_SECRET'' = Some []"
    by simp
  from not_configured_before_io [OF h, of "exchange [] (lit ''50.00000000'')" "[]"
      "''/api/v3/account''" "[]" "Str (lit ''USDT'')" Undefined Undefined "Num (Finite 1000)"
      "Str (lit ''TRX'')" "lit ''TR7NHqjeKQxGTCi8q8ZY4pL8otSzgjLj6t''" "Finite 20"] a t
  show ?thesis by blast
qed

subsection \<open>The withdrawal gates\<close>

text \<open>
  C6. For a request that passes the input checks, with \<open>available\<close> the balance that the
  exchange reports: a balance of zero or less gives \<open>insufficient_funds\<close> with
  \<open>availableAmount: 0\<close>; otherwise the amount to withdraw is the one supplied, or the whole
  balance when none is supplied, and it is compared first with the minimum withdrawal
  (\<open>amount_below_minimum\<close> when it is below) and then with the balance
  (\<open>insufficient_funds\<close> with the requested and the available amount when it is above).
\<close>

theorem withdraw_gates:
  assumes "withdraw_validate body = Inr (addr, net, supplied)"
    and "getUSDTBalance penv w (sent s) = (Inr available, out)"
  shows "supplied = (if nullish (get (body_of body) ''amount'') then None
                     else Some (ToNumber (get (body_of body) ''amount'')))
     \<and> (js_le available (Finite 0) \<longrightarrow>
          post_withdraw penv w s body = (NoFunds, concurrent w (s\<lparr>sent := out\<rparr>)))
     \<and> (\<not> js_le available (Finite 0)
          \<and> js_lt (case supplied of None \<Rightarrow> available | Some a \<Rightarrow> a)
                   (MIN_WITHDRAWAL_AMOUNT (concurrent w (s\<lparr>sent := out\<rparr>))) \<longrightarrow>
          post_withdraw penv w s body
          = (BelowMinimum (case supplied of None \<Rightarrow> available | Some a \<Rightarrow> a)
               (MIN_WITHDRAWAL_AMOUNT (concurrent w (s\<lparr>sent := out\<rparr>))),
             concurrent w (s\<lparr>sent := out\<rparr>)))
     \<and> (\<not> js_le available (Finite 0)
          \<and> \<not> js_lt (case supplied of None \<Rightarrow> available | Some a \<Rightarrow> a)
                   (MIN_WITHDRAWAL_AMOUNT (concurrent w (s\<lparr>sent := out\<rparr>)))
          \<and> js_gt (case supplied of None \<Rightarrow> available | Some a \<Rightarrow> a) available \<longrightarrow>
          post_withdraw penv w s body
          = (InsufficientFunds (case supplied of None \<Rightarrow> available | Some a \<Rightarrow> a) available,
             concurrent w (s\<lparr>sent := out\<rparr>)))"
proof -
  have sup: "supplied = (if nullish (get (body_of body) ''amount'') then None
                     else Some (ToNumber (get (body_of body) ''amount'')))"
    using assms(1)
    by (auto simp: withdraw_validate_def Let_def split: jsval.splits if_splits)
  have run: "post_withdraw penv w s body = withdraw_run penv w s addr net supplied"
    using assms(1) by (simp add: post_withdraw_def)
  show ?thesis
    using assms(2) sup by (simp add: run withdraw_run_def Let_def)
qed

theorem withdraw_gates_witness:
  "withdraw_validate (Obj [(''address'', Str (lit '' TR7NHqjeKQxGTCi8q8ZY4pL8otSzgjLj6t ''))])
     = Inr (lit ''TR7NHqjeKQxGTCi8q8ZY4pL8otSzgjLj6t'', Str (lit ''TRX''), None)
   \<and> fst (getUSDTBalance with_credentials (exchange [] (lit ''0.00000000'')) []) = Inr (Finite 0)
   \<and> fst (post_withdraw with_credentials (exchange [] (lit ''0.00000000'')) first_state
        (Obj [(''address'', Str (lit '' TR7NHqjeKQxGTCi8q8ZY4pL8otSzgjLj6t ''))])) = NoFunds
   \<and> fst (getUSDTBalance with_credentials (exchange [] (lit ''5.00000000'')) []) = Inr (Finite 5)
   \<and> fst (post_withdraw with_credentials (exchange [] (lit ''5.00000000'')) first_state
        (Obj [(''address'', Str (lit '' TR7NHqjeKQxGTCi8q8ZY4pL8otSzgjLj6t ''))]))
      = BelowMinimum (Finite 5) (Finite 10)
   \<and> withdraw_validate (Obj [(''address'', Str (lit ''TR7NHqjeKQxGTCi8q8ZY4pL8otSzgjLj6t'')),
                              (''amount'', Num (Finite 100))])
     = Inr (lit ''TR7NHqjeKQxGTCi8q8ZY4pL8otSzgjLj6t'', Str (lit ''TRX''), Some (Finite 100))
   \<and> fst (getUSDTBalance with_credentials (exchange [] (lit ''50.00000000'')) []) = Inr (Finite 50)
   \<and> fst (post_withdraw with_credentials (exchange [] (lit ''50.00000000'')) first_state
        (Obj [(''address'', Str (lit ''TR7NHqjeKQxGTCi8q8ZY4pL8otSzgjLj6t'')),
              (''amount'', Num (Finite 100))]))
      = InsufficientFunds (Finite 100) (Finite 50)"
proof -
  let ?a = "lit ''TR7NHqjeKQxGTCi8q8ZY4pL8otSzgjLj6t''"
  let ?b1 = "Obj [(''address'', Str (lit '' TR7NHqjeKQxGTCi8q8ZY4pL8otSzgjLj6t ''))]"
  let ?b2 = "Obj [(''address'', Str (lit ''TR7NHqjeKQxGTCi8q8ZY4pL8otSzgjLj6t'')),
                  (''amount'', Num (Finite 100))]"
  let ?out = "[signed GET ''/api/v3/account'' [] (Finite 1769069500000)]"
  have v1: "withdraw_validate ?b1 = Inr (?a, Str (lit ''TRX''), None)"
    by code_simp
  have v2: "withdraw_validate ?b2 = Inr (?a, Str (lit ''TRX''), Some (Finite 100))"
    by code_simp
  have s0: "sent first_state = []"
    by (simp add: first_state_def)
  have g0: "getUSDTBalance with_credentials (exchange [] (lit ''0.00000000'')) (sent first_state)
      = (Inr (Finite 0), ?out)"
    unfolding s0 by code_simp
  have g5: "getUSDTBalance with_credentials (exchange [] (lit ''5.00000000'')) (sent first_state)
      = (Inr (Finite 5), ?out)"
    unfolding s0 by code_simp
  have g50: "getUSDTBalance with_credentials (exchange [] (lit ''50.00000000'')) (sent first_state)
      = (Inr (Finite 50), ?out)"
    unfolding s0 by code_simp
  have m: "\<And>ds f. MIN_WITHDRAWAL_AMOUNT (concurrent (exchange ds f) (first_state\<lparr>sent := ?out\<rparr>))
      = Finite 10"
    by (simp add: exchange_def first_state_def)
  have r0: "fst (post_withdraw with_credentials (exchange [] (lit ''0.00000000'')) first_state ?b1)
      = NoFunds"
    using withdraw_gates [OF v1 g0] by (simp add: js_le_def)
  have r5: "fst (post_withdraw with_credentials (exchange [] (lit ''5.00000000'')) first_state ?b1)
      = BelowMinimum (Finite 5) (Finite 10)"
    using withdraw_gates [OF v1 g5] by (simp add: js_le_def m)
  have r50: "fst (post_withdraw with_credentials (exchange [] (lit ''50.00000000'')) first_state ?b2)
      = InsufficientFunds (Finite 100) (Finite 50)"
    using withdraw_gates [OF v2 g50] by (simp add: js_le_def js_gt_def m)
  show ?thesis
    using v1 v2 g0 g5 g50 r0 r5 r50 unfolding s0 by simp
qed

subsection \<open>The deposit endpoint\<close>

lemma post_deposit_txid_settle:
  assumes "get (body_of body) ''txId'' = Str raw" and "trim raw \<noteq> []"
    and "existing (db s) (trim raw) = None"
    and "getDepositHistory penv w (sent s) (Str (lit ''USDT'')) Undefined Undefined
           (Num (Finite 1000)) = (Inr ds, out)"
    and "find (matches (trim raw)) ds = Some match"
  shows "post_deposit_txid penv w s body
     = settle penv w (concurrent w (s\<lparr>sent := out\<rparr>)) (trim raw) match"
proof -
  from assms(2) have "raw \<noteq> []"
    by (auto simp: trim_def)
  with assms show ?thesis
    by (simp add: post_deposit_txid_def)
qed

lemma round64_not_NaN: "round64 x \<noteq> NaN"
  by (simp add: round64_def Let_def)


lemma insert_row_ok:
  assumes "write_ok d" and "\<not> isNaN amt" and "\<not> isNaN rew" and "getByTxId d t = None"
  shows "insert_row d t a amt rew ts
     = Inr (d\<lparr>processed_transactions := processed_transactions d @
                 [\<lparr>rowid = Suc (sequence d), txId = t, asset = a, amount = amt,
                   rewardKes = rew, confirmedAt = ts\<rparr>],
               sequence := Suc (sequence d)\<rparr>)"
  using assms by (simp add: insert_row_def)

lemma with_credentials_present: "\<not> credentials_missing with_credentials"
  by (simp add: credentials_missing_def env_truthy_def with_credentials_def lit_def)

lemma exchange_history:
  "getDepositHistory with_credentials (exchange ds f) out (Str (lit ''USDT'')) Undefined Undefined
     (Num (Finite 1000)) = (Inr ds, out @ [history_request])"
  by (simp add: getDepositHistory_def binanceGet_def with_credentials_present exchange_def
      history_request_def signed_def Let_def)

lemma exchange_alone [simp]: "concurrent (exchange ds f) s = s"
  by (simp add: exchange_def)

lemma exchange_now [simp]: "now (exchange ds f) = Finite 1769069500000"
  by (simp add: exchange_def)



lemma racing_history:
  "getDepositHistory with_credentials (racing penv (exchange ds f) b) out (Str (lit ''USDT''))
     Undefined Undefined (Num (Finite 1000)) = (Inr ds, out @ [history_request])"
  by (simp add: getDepositHistory_def binanceGet_def with_credentials_present exchange_def
      racing_def history_request_def signed_def Let_def)

text \<open>
  C1 (what the code does). When the lookup finds no row, a confirmed deposit is matched and
  passes the gate, and the insert then fails on the uniqueness of \<open>txId\<close>, the \<open>catch\<close>
  block answers \<open>verification_error\<close> with the message of a failed verification (and, in
  development mode, the driver's error as \<open>details\<close>): not \<open>already_used\<close>.
\<close>

theorem duplicate_insert_answer:
  assumes "get (body_of body) ''txId'' = Str raw" and "trim raw \<noteq> []"
    and "existing (db s) (trim raw) = None"
    and "getDepositHistory penv w (sent s) (Str (lit ''USDT'')) Undefined Undefined
           (Num (Finite 1000)) = (Inr ds, out)"
    and "find (matches (trim raw)) ds = Some match"
    and "resumed = concurrent w (s\<lparr>sent := out\<rparr>)"
    and "confirmed = ToNumber (js_or (get match ''amount'') (Num (Finite 0)))"
    and "\<not> (js_gt (MIN_DEPOSIT_AMOUNT resumed) (Finite 0)
             \<and> js_lt confirmed (MIN_DEPOSIT_AMOUNT resumed))"
    and "toISOString w (js_or (get match ''insertTime'') (Num (now w))) = Inr ts"
    and "insert_row (db resumed) (normalizedTxId (trim raw)) (lit ''USDT'') confirmed
           (js_mul confirmed (KES_PER_USDT resumed)) ts
         = Inl (SqliteError SQLITE_CONSTRAINT_UNIQUE)"
  shows "post_deposit_txid penv w s body
       = (VerificationError (Str (lit ''Failed to verify transaction with Binance''))
            (if in_development penv then Some (SqliteError SQLITE_CONSTRAINT_UNIQUE) else None),
          resumed)
     \<and> reason (fst (post_deposit_txid penv w s body)) = Some ''verification_error''"
proof -
  have run: "post_deposit_txid penv w s body = settle penv w resumed (trim raw) match"
    using assms(1-6) by (simp add: post_deposit_txid_settle)
  have "settle penv w resumed (trim raw) match
      = (deposit_catch penv (SqliteError SQLITE_CONSTRAINT_UNIQUE), resumed)"
    using assms(7-10) by (auto simp: settle_def Let_def)
  then show ?thesis
    by (simp add: run deposit_catch_def js_and_def js_or_def lit_def)
qed

text \<open>
  Two submissions of \<open>344178838453\<close> at the same time, for a confirmed deposit of 9 at
  rate 150: the one served while the other waits is answered \<open>complete\<close>; the other,
  whose lookup had found no row, is answered \<open>verification_error\<close>.
\<close>

theorem duplicate_insert_answer_witness:
  "existing (db first_state) (trim (lit ''344178838453'')) = None
   \<and> fst (post_deposit_txid with_credentials
         (exchange [deposit_record (lit ''Off-chain transfer 344178838453'') (Str (lit ''9''))] [])
         (first_state\<lparr>sent := [history_request]\<rparr>) (Obj [(''txId'', Str (lit ''344178838453''))]))
     = DepositComplete (Finite 9) 1769069484000 (Finite 1350)
   \<and> fst (post_deposit_txid with_credentials
         (racing with_credentials
           (exchange [deposit_record (lit ''Off-chain transfer 344178838453'') (Str (lit ''9''))] [])
           (Obj [(''txId'', Str (lit ''344178838453''))]))
         first_state (Obj [(''txId'', Str (lit ''344178838453''))]))
     = VerificationError (Str (lit ''Failed to verify transaction with Binance'')) None"
proof -
  let ?raw = "lit ''344178838453''"
  let ?body = "Obj [(''txId'', Str ?raw)]"
  let ?d9 = "deposit_record (lit ''Off-chain transfer 344178838453'') (Str (lit ''9''))"
  let ?w = "exchange [?d9] []"
  let ?w2 = "racing with_credentials ?w ?body"
  let ?s1 = "concurrent ?w2 (first_state\<lparr>sent := sent first_state @ [history_request]\<rparr>)"
  have b: "get (body_of ?body) ''txId'' = Str ?raw"
    by (simp add: body_of_def)
  have t: "trim ?raw \<noteq> []"
    by code_simp
  have e: "existing (db first_state) (trim ?raw) = None"
    by code_simp
  have m9: "find (matches (trim ?raw)) [?d9] = Some ?d9"
    by code_simp
  have s1: "?s1 = first_state\<lparr>sent := [history_request, history_request],
      db := (db first_state)\<lparr>processed_transactions :=
          [\<lparr>rowid = 1, txId = lit ''Off-chain transfer 344178838453'', asset = lit ''USDT'',
            amount = Finite 9, rewardKes = Finite 1350, confirmedAt = 1769069484000\<rparr>],
        sequence := 1\<rparr>\<rparr>"
    by code_simp
  have a9: "ToNumber (js_or (get ?d9 ''amount'') (Num (Finite 0))) = Finite 9"
    by code_simp
  have n: "normalizedTxId (trim ?raw) = lit ''Off-chain transfer 344178838453''"
    by code_simp
  have r: "round64 1350 = Finite 1350"
    by code_simp
  have gate: "\<not> (js_gt (MIN_DEPOSIT_AMOUNT ?s1) (Finite 0)
      \<and> js_lt (ToNumber (js_or (get ?d9 ''amount'') (Num (Finite 0)))) (MIN_DEPOSIT_AMOUNT ?s1))"
    unfolding s1 by (simp add: first_state_def js_gt_def)
  have ts: "toISOString ?w2 (js_or (get ?d9 ''insertTime'') (Num (now ?w2))) = Inr 1769069484000"
    by (simp add: toISOString_def TimeClip_def js_or_def deposit_record_def)
  have ins: "insert_row (db ?s1) (normalizedTxId (trim ?raw)) (lit ''USDT'')
       (ToNumber (js_or (get ?d9 ''amount'') (Num (Finite 0))))
       (js_mul (ToNumber (js_or (get ?d9 ''amount'') (Num (Finite 0)))) (KES_PER_USDT ?s1))
       1769069484000
     = Inl (SqliteError SQLITE_CONSTRAINT_UNIQUE)"
    unfolding s1 a9 n by (simp add: first_state_def r insert_row_def getByTxId_def)
  have other: "fst (post_deposit_txid with_credentials ?w
      (first_state\<lparr>sent := [history_request]\<rparr>) ?body)
     = DepositComplete (Finite 9) 1769069484000 (Finite 1350)"
    by code_simp
  have dev: "\<not> in_development with_credentials"
    by (simp add: in_development_def with_credentials_def)
  from duplicate_insert_answer [OF b t e racing_history m9 refl refl gate ts ins] dev
  have "fst (post_deposit_txid with_credentials ?w2 first_state ?body)
     = VerificationError (Str (lit ''Failed to verify transaction with Binance'')) None"
    by simp
  with e other show ?thesis by simp
qed

text \<open>
  C10 (as amended). When the matched confirmed record has a missing, empty or zero
  \<open>amount\<close>, the confirmed amount is 0; when moreover the minimum deposit is 0 and the
  exchange rate is finite, the claim is settled with amount 0 and reward 0 (the answer is
  \<open>complete\<close> with \<open>confirmedAmount\<close> 0 and \<open>rewardKes\<close> 0, and the row is appended),
  given a valid time of confirmation and a store that takes the row.
\<close>

theorem zero_amount_settles:
  assumes "get (body_of body) ''txId'' = Str raw" and "trim raw \<noteq> []"
    and "existing (db s) (trim raw) = None"
    and "getDepositHistory penv w (sent s) (Str (lit ''USDT'')) Undefined Undefined
           (Num (Finite 1000)) = (Inr ds, out)"
    and "find (matches (trim raw)) ds = Some match"
    and "resumed = concurrent w (s\<lparr>sent := out\<rparr>)"
    and "get match ''amount'' = Undefined \<or> get match ''amount'' = Null
         \<or> get match ''amount'' = Str [] \<or> ToNumber (get match ''amount'') = Finite 0"
    and "MIN_DEPOSIT_AMOUNT resumed = Finite 0"
    and "isFinite (KES_PER_USDT resumed)"
    and "toISOString w (js_or (get match ''insertTime'') (Num (now w))) = Inr ts"
    and "write_ok (db resumed)"
    and "getByTxId (db resumed) (normalizedTxId (trim raw)) = None"
  shows "ToNumber (js_or (get match ''amount'') (Num (Finite 0))) = Finite 0
     \<and> fst (post_deposit_txid penv w s body) = DepositComplete (Finite 0) ts (Finite 0)
     \<and> status (fst (post_deposit_txid penv w s body)) = Some ''complete''
     \<and> processed_transactions (db (snd (post_deposit_txid penv w s body)))
         = processed_transactions (db resumed) @
           [\<lparr>rowid = Suc (sequence (db resumed)), txId = normalizedTxId (trim raw),
             asset = lit ''USDT'', amount = Finite 0, rewardKes = Finite 0, confirmedAt = ts\<rparr>]"
proof -
  have run: "post_deposit_txid penv w s body = settle penv w resumed (trim raw) match"
    using assms(1-6) by (simp add: post_deposit_txid_settle)
  have zero: "ToNumber (js_or (get match ''amount'') (Num (Finite 0))) = Finite 0"
    using assms(7) by (auto simp: js_or_def)
  from assms(9) obtain r where rate: "KES_PER_USDT resumed = Finite r"
    by (cases "KES_PER_USDT resumed") simp_all
  have reward: "js_mul (Finite 0) (KES_PER_USDT resumed) = Finite 0"
    by (simp add: rate round64_def)
  have ins: "insert_row (db resumed) (normalizedTxId (trim raw)) (lit ''USDT'') (Finite 0)
      (Finite 0) ts
     = Inr ((db resumed)\<lparr>processed_transactions := processed_transactions (db resumed) @
                 [\<lparr>rowid = Suc (sequence (db resumed)), txId = normalizedTxId (trim raw),
                   asset = lit ''USDT'', amount = Finite 0, rewardKes = Finite 0,
                   confirmedAt = ts\<rparr>],
               sequence := Suc (sequence (db resumed))\<rparr>)"
    using assms(11,12) by (simp add: insert_row_ok)
  have "settle penv w resumed (trim raw) match
     = (DepositComplete (Finite 0) ts (Finite 0),
        resumed\<lparr>db := (db resumed)\<lparr>processed_transactions := processed_transactions (db resumed) @
                 [\<lparr>rowid = Suc (sequence (db resumed)), txId = normalizedTxId (trim raw),
                   asset = lit ''USDT'', amount = Finite 0, rewardKes = Finite 0,
                   confirmedAt = ts\<rparr>],
               sequence := Suc (sequence (db resumed))\<rparr>\<rparr>)"
    using assms(8,10) by (simp add: settle_def Let_def zero reward ins js_gt_def)
  with zero show ?thesis
    by (simp add: run)
qed

theorem zero_amount_settles_witness:
  "fst (post_deposit_txid with_credentials
         (exchange [record_without_amount (lit ''Off-chain transfer 344178838453'')] [])
         first_state (Obj [(''txId'', Str (lit ''344178838453''))]))
     = DepositComplete (Finite 0) 1769069484000 (Finite 0)
   \<and> processed_transactions (db (snd (post_deposit_txid with_credentials
         (exchange [record_without_amount (lit ''Off-chain transfer 344178838453'')] [])
         first_state (Obj [(''txId'', Str (lit ''344178838453''))]))))
     = [\<lparr>rowid = 1, txId = lit ''Off-chain transfer 344178838453'', asset = lit ''USDT'',
         amount = Finite 0, rewardKes = Finite 0, confirmedAt = 1769069484000\<rparr>]
   \<and> ToNumber (Str (lit ''0.00000000'')) = Finite 0
   \<and> fst (post_deposit_txid with_credentials
         (exchange [deposit_record (lit ''Off-chain transfer 344178838453'')
                      (Str (lit ''0.00000000''))] [])
         first_state (Obj [(''txId'', Str (lit ''344178838453''))]))
     = DepositComplete (Finite 0) 1769069484000 (Finite 0)"
proof -
  let ?raw = "lit ''344178838453''"
  let ?body = "Obj [(''txId'', Str ?raw)]"
  let ?none = "record_without_amount (lit ''Off-chain transfer 344178838453'')"
  let ?zero = "deposit_record (lit ''Off-chain transfer 344178838453'') (Str (lit ''0.00000000''))"
  let ?s1 = "first_state\<lparr>sent := sent first_state @ [history_request]\<rparr>"
  have b: "get (body_of ?body) ''txId'' = Str ?raw"
    by (simp add: body_of_def)
  have t: "trim ?raw \<noteq> []"
    by code_simp
  have n: "normalizedTxId (trim ?raw) = lit ''Off-chain transfer 344178838453''"
    by code_simp
  have e: "existing (db first_state) (trim ?raw) = None"
    by code_simp
  have m: "find (matches (trim ?raw)) [?none] = Some ?none"
    by code_simp
  have m0: "find (matches (trim ?raw)) [?zero] = Some ?zero"
    by code_simp
  have a: "get ?none ''amount'' = Undefined \<or> get ?none ''amount'' = Null
         \<or> get ?none ''amount'' = Str [] \<or> ToNumber (get ?none ''amount'') = Finite 0"
    by (simp add: record_without_amount_def)
  have z: "ToNumber (Str (lit ''0.00000000'')) = Finite 0"
    by code_simp
  have g0: "get ?zero ''amount'' = Str (lit ''0.00000000'')"
    by (simp add: deposit_record_def)
  have a0: "get ?zero ''amount'' = Undefined \<or> get ?zero ''amount'' = Null
         \<or> get ?zero ''amount'' = Str [] \<or> ToNumber (get ?zero ''amount'') = Finite 0"
    unfolding g0 using z by blast
  have st: "MIN_DEPOSIT_AMOUNT ?s1 = Finite 0" "isFinite (KES_PER_USDT ?s1)" "write_ok (db ?s1)"
    "processed_transactions (db ?s1) = []" "sequence (db ?s1) = 0"
    by (simp_all add: first_state_def)
  have free: "getByTxId (db ?s1) (normalizedTxId (trim ?raw)) = None"
    by (simp add: getByTxId_def first_state_def)
  have ts: "\<And>ds. toISOString (exchange ds []) (js_or (get ?none ''insertTime'')
      (Num (now (exchange ds [])))) = Inr 1769069484000"
    by (simp add: toISOString_def TimeClip_def js_or_def record_without_amount_def)
  have ts0: "\<And>ds. toISOString (exchange ds []) (js_or (get ?zero ''insertTime'')
      (Num (now (exchange ds [])))) = Inr 1769069484000"
    by (simp add: toISOString_def TimeClip_def js_or_def deposit_record_def)
  have r1: "fst (post_deposit_txid with_credentials (exchange [?none] []) first_state ?body)
       = DepositComplete (Finite 0) 1769069484000 (Finite 0)
     \<and> processed_transactions (db (snd (post_deposit_txid with_credentials (exchange [?none] [])
         first_state ?body)))
       = [\<lparr>rowid = 1, txId = lit ''Off-chain transfer 344178838453'', asset = lit ''USDT'',
           amount = Finite 0, rewardKes = Finite 0, confirmedAt = 1769069484000\<rparr>]"
    using zero_amount_settles [where penv = with_credentials and w = "exchange [?none] []"
        and s = first_state and resumed = ?s1 and ts = 1769069484000,
        OF b t e exchange_history m _ a st(1,2) ts st(3) free]
      st n by simp
  have r2: "fst (post_deposit_txid with_credentials (exchange [?zero] []) first_state ?body)
       = DepositComplete (Finite 0) 1769069484000 (Finite 0)"
    using zero_amount_settles [where penv = with_credentials and w = "exchange [?zero] []"
        and s = first_state and resumed = ?s1 and ts = 1769069484000,
        OF b t e exchange_history m0 _ a0 st(1,2) ts0 st(3) free]
    by simp
  from r1 r2 z show ?thesis by simp
qed

text \<open>
  With the rate \<open>Infinity\<close> and the minimum deposit 0, a matched confirmed record without
  \<open>amount\<close> gives the reward \<open>0 * Infinity\<close>, which is NaN; the insert is refused and the
  answer is \<open>verification_error\<close>, with no row written.
\<close>

theorem zero_amount_counterexample:
  "KES_PER_USDT rate_infinity = Infinity
   \<and> MIN_DEPOSIT_AMOUNT rate_infinity = Finite 0
   \<and> js_mul (ToNumber (js_or (get (record_without_amount
          (lit ''Off-chain transfer 344178838453'')) ''amount'') (Num (Finite 0))))
        (KES_PER_USDT rate_infinity) = NaN
   \<and> fst (post_deposit_txid with_credentials
         (exchange [record_without_amount (lit ''Off-chain transfer 344178838453'')] [])
         rate_infinity (Obj [(''txId'', Str (lit ''344178838453''))]))
     = VerificationError (Str (lit ''Failed to verify transaction with Binance'')) None
   \<and> processed_transactions (db (snd (post_deposit_txid with_credentials
         (exchange [record_without_amount (lit ''Off-chain transfer 344178838453'')] [])
         rate_infinity (Obj [(''txId'', Str (lit ''344178838453''))])))) = []"
  by code_simp

subsection \<open>Rounding to binary64\<close>

lemma pow2_powi: "pow2 e = 2 powi e"
  by (simp add: pow2_def power_int_def field_simps)

lemma floor_log2_less:
  assumes "0 < x" and "x < 2 powi n"
  shows "floor_log2 x < n"
proof (cases "1 \<le> x")
  case True
  define a where "a = \<lfloor>x\<rfloor>"
  from True have a: "0 < a"
    by (simp add: a_def)
  have "0 < n"
  proof (rule ccontr)
    assume "\<not> 0 < n"
    then have "(2::rat) powi n \<le> 1"
      by (simp add: power_int_def field_simps)
    with True assms(2) show False by simp
  qed
  then have p: "(2::rat) powi n = 2 ^ nat n"
    by (simp add: power_int_def)
  have "of_int a \<le> x"
    by (simp add: a_def)
  also from assms(2) p have "x < 2 ^ nat n"
    by simp
  finally have "(of_int a :: rat) < of_int (2 ^ nat n)"
    by simp
  then have "a < 2 ^ nat n"
    by (simp only: of_int_less_iff)
  moreover have "2 ^ nat (bitlen a - 1) \<le> a"
    using bitlen_bounds [OF a] by simp
  ultimately have "(2::int) ^ nat (bitlen a - 1) < 2 ^ nat n"
    by (rule le_less_trans [rotated])
  then have "nat (bitlen a - 1) < nat n"
    by simp
  then have "bitlen a - 1 < n"
    using \<open>0 < n\<close> by simp
  with True show ?thesis
    by (simp add: floor_log2_def a_def)
next
  case False
  define c where "c = \<lceil>1 / x\<rceil>"
  show ?thesis
  proof (cases "0 < n")
    case True
    have "0 \<le> bitlen (c - 1)"
      by (rule bitlen_nonneg)
    with True False show ?thesis
      by (simp add: floor_log2_def c_def)
  next
    case n: False
    define j where "j = nat (- n)"
    from n have p: "(2::rat) powi n = 1 / 2 ^ j"
      by (simp add: power_int_def j_def field_simps)
    with assms have "x * 2 ^ j < 1"
      by (simp add: field_simps)
    with assms(1) have "2 ^ j < 1 / x"
      by (simp add: field_simps)
    also have "1 / x \<le> of_int c"
      by (simp add: c_def)
    finally have "(of_int (2 ^ j) :: rat) < of_int c"
      by simp
    then have "2 ^ j < c"
      by (simp only: of_int_less_iff)
    moreover have "(1::int) \<le> 2 ^ j"
      by simp
    ultimately have lo: "2 ^ j \<le> c - 1" and pos: "0 < c - 1"
      by linarith+
    from bitlen_bounds [OF pos] have "c - 1 < 2 ^ nat (bitlen (c - 1))"
      by simp
    with lo have "(2::int) ^ j < 2 ^ nat (bitlen (c - 1))"
      by (rule le_less_trans)
    then have "j < nat (bitlen (c - 1))"
      by simp
    then have "- n < bitlen (c - 1)"
      using n by (simp add: j_def)
    with False show ?thesis
      by (simp add: floor_log2_def c_def)
  qed
qed

lemma round_half_even_of_int: "round_half_even (of_int n) = n"
  by (simp add: round_half_even_def)

lemma round64_representable:
  assumes "representable x"
  shows "round64 x = Finite x"
proof (cases "x = 0")
  case True
  then show ?thesis by (simp add: round64_def)
next
  case False
  from assms obtain m k where x: "x = of_int m * 2 powi k" and m: "\<bar>m\<bar> < 2 ^ 53"
    and k: "- 1074 \<le> k" "k \<le> 971"
    by (auto simp: representable_def pow2_powi)
  have pk: "(0::rat) < 2 powi k"
    by (simp add: zero_less_power_int)
  have ax: "\<bar>x\<bar> = of_int \<bar>m\<bar> * 2 powi k"
    using pk by (simp add: x abs_mult)
  from m have "(of_int \<bar>m\<bar> :: rat) < of_int (2 ^ 53)"
    by (simp only: of_int_less_iff)
  then have "\<bar>x\<bar> < 2 ^ 53 * 2 powi k"
    using pk by (simp add: ax)
  also have "\<dots> = 2 powi (53 + k)"
    by (simp add: power_int_add)
  finally have bound: "\<bar>x\<bar> < 2 powi (53 + k)" .
  from False have "0 < \<bar>x\<bar>" by simp
  from floor_log2_less [OF this bound] have f: "floor_log2 \<bar>x\<bar> \<le> 52 + k"
    by simp
  define d where "d = max (floor_log2 \<bar>x\<bar>) (- 1022) - 52"
  from f k have dk: "d \<le> k"
    by (simp add: d_def)
  have "(2::rat) powi k = 2 powi (k - d) * 2 powi d"
    by (simp add: power_int_add [symmetric])
  also from dk have "(2::rat) powi (k - d) = of_int (2 ^ nat (k - d))"
    by (simp add: power_int_def)
  finally have split: "(2::rat) powi k = of_int (2 ^ nat (k - d)) * 2 powi d" .
  have pd: "(0::rat) < 2 powi d"
    by (simp add: zero_less_power_int)
  have q: "x / 2 powi d = of_int (m * 2 ^ nat (k - d))"
    using pd by (simp add: x split)
  have y: "of_int (round_half_even (x / 2 powi d)) * 2 powi d = x"
    unfolding q round_half_even_of_int using pd by (simp add: x split)
  have "(2::rat) powi (53 + k) \<le> 2 powi 1024"
    using k by (intro power_int_increasing) simp_all
  with bound have small: "\<bar>x\<bar> < 2 ^ 1024"
    by simp
  show ?thesis
    using False y small
    by (simp add: round64_def Let_def pow2_powi d_def [symmetric])
qed
lemma rate_posted_history:
  "getDepositHistory with_credentials (rate_posted (exchange ds f) b) out (Str (lit ''USDT''))
     Undefined Undefined (Num (Finite 1000)) = (Inr ds, out @ [history_request])"
  by (simp add: getDepositHistory_def binanceGet_def with_credentials_present exchange_def
      rate_posted_def history_request_def signed_def Let_def)

text \<open>
  C4 (as amended). When a confirmed deposit is matched, passes the minimum-deposit gate and
  is settled, the reward is the product, in binary64 arithmetic, of the confirmed amount
  and the exchange rate that is in memory when the handler resumes with the deposit
  history: the exact product rounded to the nearest binary64 value. It is the exact product
  whenever that is a binary64 value; with rate 150 and confirmed amount 9 it is 1350.
\<close>

theorem reward_is_rounded_product:
  assumes "get (body_of body) ''txId'' = Str raw" and "trim raw \<noteq> []"
    and "existing (db s) (trim raw) = None"
    and "getDepositHistory penv w (sent s) (Str (lit ''USDT'')) Undefined Undefined
           (Num (Finite 1000)) = (Inr ds, out)"
    and "find (matches (trim raw)) ds = Some match"
    and "resumed = concurrent w (s\<lparr>sent := out\<rparr>)"
    and "confirmed = ToNumber (js_or (get match ''amount'') (Num (Finite 0)))"
    and "\<not> (js_gt (MIN_DEPOSIT_AMOUNT resumed) (Finite 0)
             \<and> js_lt confirmed (MIN_DEPOSIT_AMOUNT resumed))"
    and "toISOString w (js_or (get match ''insertTime'') (Num (now w))) = Inr ts"
    and "insert_row (db resumed) (normalizedTxId (trim raw)) (lit ''USDT'') confirmed
           (js_mul confirmed (KES_PER_USDT resumed)) ts = Inr d"
  shows "post_deposit_txid penv w s body
       = (DepositComplete confirmed ts (js_mul confirmed (KES_PER_USDT resumed)),
          resumed\<lparr>db := d\<rparr>)
     \<and> (\<forall>a r. confirmed = Finite a \<and> KES_PER_USDT resumed = Finite r \<longrightarrow>
           js_mul confirmed (KES_PER_USDT resumed) = round64 (a * r)
           \<and> (representable (a * r) \<longrightarrow>
                js_mul confirmed (KES_PER_USDT resumed) = Finite (a * r)))"
proof -
  have run: "post_deposit_txid penv w s body = settle penv w resumed (trim raw) match"
    using assms(1-6) by (simp add: post_deposit_txid_settle)
  have "settle penv w resumed (trim raw) match
      = (DepositComplete confirmed ts (js_mul confirmed (KES_PER_USDT resumed)),
         resumed\<lparr>db := d\<rparr>)"
    using assms(7-10) by (auto simp: settle_def Let_def)
  then show ?thesis
    by (auto simp: run round64_representable)
qed

theorem reward_is_rounded_product_witness:
  "representable (9 * 150)
   \<and> post_deposit_txid with_credentials
       (exchange [deposit_record (lit ''Off-chain transfer 344178838453'') (Str (lit ''9''))] [])
       first_state (Obj [(''txId'', Str (lit ''344178838453''))])
     = (DepositComplete (Finite 9) 1769069484000 (Finite (9 * 150)),
        first_state\<lparr>sent := [history_request],
          db := (db first_state)\<lparr>processed_transactions :=
              [\<lparr>rowid = 1, txId = lit ''Off-chain transfer 344178838453'', asset = lit ''USDT'',
                amount = Finite 9, rewardKes = Finite 1350, confirmedAt = 1769069484000\<rparr>],
            sequence := 1\<rparr>\<rparr>)
   \<and> KES_PER_USDT first_state = Finite 150
   \<and> fst (post_deposit_txid with_credentials
       (rate_posted
         (exchange [deposit_record (lit ''Off-chain transfer 344178838453'') (Str (lit ''9''))] [])
         (Obj [(''rate'', Num (Finite 129))]))
       first_state (Obj [(''txId'', Str (lit ''344178838453''))]))
     = DepositComplete (Finite 9) 1769069484000 (Finite (9 * 129))"
proof -
  let ?raw = "lit ''344178838453''"
  let ?body = "Obj [(''txId'', Str ?raw)]"
  let ?d9 = "deposit_record (lit ''Off-chain transfer 344178838453'') (Str (lit ''9''))"
  let ?w = "exchange [?d9] []"
  let ?w2 = "rate_posted ?w (Obj [(''rate'', Num (Finite 129))])"
  let ?s1 = "first_state\<lparr>sent := sent first_state @ [history_request]\<rparr>"
  let ?s2 = "concurrent ?w2 (first_state\<lparr>sent := sent first_state @ [history_request]\<rparr>)"
  let ?row = "\<lambda>rew. \<lparr>rowid = 1, txId = lit ''Off-chain transfer 344178838453'',
      asset = lit ''USDT'', amount = Finite 9, rewardKes = rew, confirmedAt = 1769069484000\<rparr>"
  have b: "get (body_of ?body) ''txId'' = Str ?raw"
    by (simp add: body_of_def)
  have t: "trim ?raw \<noteq> []"
    by code_simp
  have n: "normalizedTxId (trim ?raw) = lit ''Off-chain transfer 344178838453''"
    by code_simp
  have e: "existing (db first_state) (trim ?raw) = None"
    by code_simp
  have m9: "find (matches (trim ?raw)) [?d9] = Some ?d9"
    by code_simp
  have a9: "ToNumber (js_or (get ?d9 ''amount'') (Num (Finite 0))) = Finite 9"
    by code_simp
  have rep1: "representable (9 * 150)"
    unfolding representable_def by (rule exI [of _ 1350], rule exI [of _ 0]) (simp add: pow2_def)
  have rep2: "representable (9 * 129)"
    unfolding representable_def by (rule exI [of _ 1161], rule exI [of _ 0]) (simp add: pow2_def)
  from rep1 rep2 have r: "round64 1350 = Finite 1350" "round64 1161 = Finite 1161"
    using round64_representable [of 1350] round64_representable [of 1161] by simp_all
  have ts1: "toISOString ?w (js_or (get ?d9 ''insertTime'') (Num (now ?w))) = Inr 1769069484000"
    by (simp add: toISOString_def TimeClip_def js_or_def deposit_record_def)
  have ts2: "toISOString ?w2 (js_or (get ?d9 ''insertTime'') (Num (now ?w2))) = Inr 1769069484000"
    by (simp add: toISOString_def TimeClip_def js_or_def deposit_record_def)
  have s2: "?s2 = first_state\<lparr>sent := [history_request], KES_PER_USDT := Finite 129,
      db := (db first_state)\<lparr>settings :=
          [(''KES_PER_USDT'', NumberText (Finite 129)),
           (''MIN_DEPOSIT_AMOUNT'', NumberText (Finite 0)),
           (''MIN_WITHDRAWAL_AMOUNT'', NumberText (Finite 10))]\<rparr>\<rparr>"
    by code_simp
  have gate1: "\<not> (js_gt (MIN_DEPOSIT_AMOUNT ?s1) (Finite 0)
      \<and> js_lt (ToNumber (js_or (get ?d9 ''amount'') (Num (Finite 0)))) (MIN_DEPOSIT_AMOUNT ?s1))"
    by (simp add: first_state_def js_gt_def)
  have gate2: "\<not> (js_gt (MIN_DEPOSIT_AMOUNT ?s2) (Finite 0)
      \<and> js_lt (ToNumber (js_or (get ?d9 ''amount'') (Num (Finite 0)))) (MIN_DEPOSIT_AMOUNT ?s2))"
    unfolding s2 by (simp add: first_state_def js_gt_def)
  have ins1: "insert_row (db ?s1) (normalizedTxId (trim ?raw)) (lit ''USDT'')
       (ToNumber (js_or (get ?d9 ''amount'') (Num (Finite 0))))
       (js_mul (ToNumber (js_or (get ?d9 ''amount'') (Num (Finite 0)))) (KES_PER_USDT ?s1))
       1769069484000
     = Inr ((db first_state)\<lparr>processed_transactions := [?row (Finite 1350)], sequence := 1\<rparr>)"
    unfolding a9 n by (simp add: first_state_def r insert_row_def getByTxId_def)
  have ins2: "insert_row (db ?s2) (normalizedTxId (trim ?raw)) (lit ''USDT'')
       (ToNumber (js_or (get ?d9 ''amount'') (Num (Finite 0))))
       (js_mul (ToNumber (js_or (get ?d9 ''amount'') (Num (Finite 0)))) (KES_PER_USDT ?s2))
       1769069484000
     = Inr ((db ?s2)\<lparr>processed_transactions := [?row (Finite 1161)], sequence := 1\<rparr>)"
    unfolding s2 a9 n by (simp add: first_state_def r insert_row_def getByTxId_def)
  have r1: "post_deposit_txid with_credentials ?w first_state ?body
     = (DepositComplete (Finite 9) 1769069484000 (Finite (9 * 150)),
        first_state\<lparr>sent := [history_request],
          db := (db first_state)\<lparr>processed_transactions := [?row (Finite 1350)],
            sequence := 1\<rparr>\<rparr>)"
    using reward_is_rounded_product [where penv = with_credentials and w = ?w
        and s = first_state and resumed = ?s1,
        OF b t e exchange_history m9 _ refl gate1 ts1 ins1] a9 r
    by (simp add: first_state_def)
  have r2: "fst (post_deposit_txid with_credentials ?w2 first_state ?body)
     = DepositComplete (Finite 9) 1769069484000 (Finite (9 * 129))"
    using reward_is_rounded_product [OF b t e rate_posted_history m9 refl refl gate2 ts2 ins2]
      a9 r s2
    by (simp add: rate_posted_def first_state_def)
  have k: "KES_PER_USDT first_state = Finite 150"
    by (simp add: first_state_def)
  from rep1 r1 r2 k show ?thesis by simp
qed

text \<open>
  At rate 3, a confirmed deposit whose amount the exchange gives as \<open>"0.1"\<close>: the amount
  is the binary64 value nearest to 0.1, and the reward is the binary64 value
  \<open>0.30000000000000004\<close>, which is neither 3 times that amount nor 3 times 0.1.
\<close>

theorem reward_rounding_counterexample:
  "KES_PER_USDT rate_3 = Finite 3
   \<and> round64 (3602879701896397 / 36028797018963968)
       = Finite (3602879701896397 / 36028797018963968)
   \<and> fst (post_deposit_txid with_credentials
       (exchange [deposit_record (lit ''Off-chain transfer 344178838453'') (Str (lit ''0.1''))] [])
       rate_3 (Obj [(''txId'', Str (lit ''344178838453''))]))
     = DepositComplete (Finite (3602879701896397 / 36028797018963968)) 1769069484000
         (Finite (1351079888211149 / 4503599627370496))
   \<and> (1351079888211149 / 4503599627370496 :: rat) \<noteq> 3602879701896397 / 36028797018963968 * 3
   \<and> (1351079888211149 / 4503599627370496 :: rat) \<noteq> 1 / 10 * 3"
  by code_simp

lemma trim_nonempty: "trim raw \<noteq> [] \<Longrightarrow> raw \<noteq> []"
  by (auto simp: trim_def)

lemma deposit_catch_reason:
  "reason (deposit_catch penv e) \<noteq> Some ''already_used''"
  "reason (deposit_catch penv e) \<noteq> Some ''not_found''"
  by (simp_all add: deposit_catch_def Let_def)

lemma settle_reason:
  "reason (fst (settle penv w s t m)) \<noteq> Some ''already_used''
   \<and> reason (fst (settle penv w s t m)) \<noteq> Some ''not_found''"
  by (auto simp: settle_def Let_def deposit_catch_reason split: sum.splits)

lemma getByTxId_Some_iff:
  "(\<exists>r. getByTxId d k = Some r) \<longleftrightarrow> (\<exists>r\<in>set (processed_transactions d). txId r = k)"
proof -
  have "(\<exists>r. find P xs = Some r) \<longleftrightarrow> (\<exists>x\<in>set xs. P x)" for P :: "tx_row \<Rightarrow> bool" and xs
    by (induction xs) auto
  then show ?thesis
    by (simp add: getByTxId_def)
qed

lemma existing_Some_iff:
  "(\<exists>r. existing d t = Some r) \<longleftrightarrow>
     (\<exists>r\<in>set (processed_transactions d). txId r = normalizedTxId t \<or> txId r = t)"
proof -
  have "(\<exists>r. existing d t = Some r) \<longleftrightarrow>
      (\<exists>r. getByTxId d (normalizedTxId t) = Some r) \<or> (\<exists>r. getByTxId d t = Some r)"
    by (auto simp: existing_def split: option.splits)
  then show ?thesis
    by (auto simp: getByTxId_Some_iff)
qed

lemma post_deposit_txid_existing:
  assumes "get (body_of body) ''txId'' = Str raw" and "trim raw \<noteq> []"
  shows "existing (db s) (trim raw) = Some r \<Longrightarrow>
      post_deposit_txid penv w s body = (AlreadyUsed (amount r) (rewardKes r) (confirmedAt r), s)"
    and "existing (db s) (trim raw) = None \<Longrightarrow>
      reason (fst (post_deposit_txid penv w s body)) \<noteq> Some ''already_used''"
    and "existing (db s) (trim raw) = None \<Longrightarrow>
      getDepositHistory penv w (sent s) (Str (lit ''USDT'')) Undefined Undefined
         (Num (Finite 1000)) = (Inr ds, out) \<Longrightarrow>
      reason (fst (post_deposit_txid penv w s body)) = Some ''not_found''
        \<longleftrightarrow> find (matches (trim raw)) ds = None"
proof -
  from assms(2) have ne: "raw \<noteq> []"
    by (rule trim_nonempty)
  show "post_deposit_txid penv w s body = (AlreadyUsed (amount r) (rewardKes r) (confirmedAt r), s)"
    if "existing (db s) (trim raw) = Some r"
    using that assms ne by (simp add: post_deposit_txid_def)
  show "reason (fst (post_deposit_txid penv w s body)) \<noteq> Some ''already_used''"
    if "existing (db s) (trim raw) = None"
    using that assms ne settle_reason [of penv w]
    by (auto simp: post_deposit_txid_def Let_def deposit_catch_reason
        split: prod.splits sum.splits option.splits)
  show "reason (fst (post_deposit_txid penv w s body)) = Some ''not_found''
        \<longleftrightarrow> find (matches (trim raw)) ds = None"
    if "existing (db s) (trim raw) = None"
      and "getDepositHistory penv w (sent s) (Str (lit ''USDT'')) Undefined Undefined
         (Num (Finite 1000)) = (Inr ds, out)"
    using that assms ne settle_reason [of penv w]
    by (auto simp: post_deposit_txid_def Let_def split: option.splits)
qed

lemma normalizedTxId_idem: "normalizedTxId (normalizedTxId t) = normalizedTxId t"
  by (simp add: normalizedTxId_def startsWith_def)

text \<open>
  C2 (as amended). For a \<open>txId\<close> given as a string: one that is empty after trimming is
  answered 400; otherwise the canonical identifier is the trimmed string when that begins
  with \<open>Off-chain transfer \<close>, and the prefix followed by the trimmed string when not. The
  answer is \<open>already_used\<close> exactly when a row is stored under the canonical or under the
  trimmed identifier; with no such row, the answer is \<open>not_found\<close> exactly when no listed
  record is confirmed and carries, as given or trimmed, the canonical or the trimmed
  identifier. So two submissions with the same canonical identifier are both answered from
  the row stored under it, and both match a record that carries it.
\<close>

theorem txid_dual_keys:
  assumes "get (body_of body) ''txId'' = Str raw"
  shows "(trim raw = [] \<longrightarrow>
            post_deposit_txid penv w s body = (BadRequest ''txId is required'', s))
     \<and> (startsWith (trim raw) (lit ''Off-chain transfer '') \<longrightarrow>
            normalizedTxId (trim raw) = trim raw)
     \<and> (\<not> startsWith (trim raw) (lit ''Off-chain transfer '') \<longrightarrow>
            normalizedTxId (trim raw) = lit ''Off-chain transfer '' @ trim raw)
     \<and> (trim raw \<noteq> [] \<longrightarrow>
          (reason (fst (post_deposit_txid penv w s body)) = Some ''already_used''
           \<longleftrightarrow> (\<exists>r\<in>set (processed_transactions (db s)).
                  txId r = normalizedTxId (trim raw) \<or> txId r = trim raw)))
     \<and> (trim raw \<noteq> []
          \<and> \<not> (\<exists>r\<in>set (processed_transactions (db s)).
                  txId r = normalizedTxId (trim raw) \<or> txId r = trim raw)
          \<and> getDepositHistory penv w (sent s) (Str (lit ''USDT'')) Undefined Undefined
               (Num (Finite 1000)) = (Inr ds, out) \<longrightarrow>
          (reason (fst (post_deposit_txid penv w s body)) = Some ''not_found''
           \<longleftrightarrow> \<not> (\<exists>d\<in>set ds. truthy d
                  \<and> (\<exists>t. get d ''txId'' = Str t
                        \<and> (t = normalizedTxId (trim raw) \<or> trim t = normalizedTxId (trim raw)
                            \<or> t = trim raw \<or> trim t = trim raw))
                  \<and> ToNumber (get d ''status'') = Finite 1)))
     \<and> (\<forall>other. normalizedTxId (trim other) = normalizedTxId (trim raw) \<longrightarrow>
          (\<forall>d r. getByTxId d (normalizedTxId (trim raw)) = Some r \<longrightarrow>
              existing d (trim other) = Some r \<and> existing d (trim raw) = Some r)
          \<and> (\<forall>d t. truthy d \<and> get d ''txId'' = Str t
                 \<and> (t = normalizedTxId (trim raw) \<or> trim t = normalizedTxId (trim raw))
                 \<and> ToNumber (get d ''status'') = Finite 1 \<longrightarrow>
              matches (trim other) d \<and> matches (trim raw) d))"
proof (intro conjI impI allI)
  show "post_deposit_txid penv w s body = (BadRequest ''txId is required'', s)"
    if "trim raw = []"
    using that assms by (simp add: post_deposit_txid_def)
  show "normalizedTxId (trim raw) = trim raw"
    if "startsWith (trim raw) (lit ''Off-chain transfer '')"
    using that by (simp add: normalizedTxId_def OFF_CHAIN_PREFIX_def)
  show "normalizedTxId (trim raw) = lit ''Off-chain transfer '' @ trim raw"
    if "\<not> startsWith (trim raw) (lit ''Off-chain transfer '')"
    using that by (simp add: normalizedTxId_def OFF_CHAIN_PREFIX_def)
  show "reason (fst (post_deposit_txid penv w s body)) = Some ''already_used''
      \<longleftrightarrow> (\<exists>r\<in>set (processed_transactions (db s)).
              txId r = normalizedTxId (trim raw) \<or> txId r = trim raw)"
    if t: "trim raw \<noteq> []"
  proof (cases "existing (db s) (trim raw)")
    case None
    with post_deposit_txid_existing(2) [OF assms t None] existing_Some_iff [of "db s" "trim raw"]
    show ?thesis by simp
  next
    case (Some r)
    with post_deposit_txid_existing(1) [OF assms t Some] existing_Some_iff [of "db s" "trim raw"]
    show ?thesis by auto
  qed
  show "reason (fst (post_deposit_txid penv w s body)) = Some ''not_found''
      \<longleftrightarrow> \<not> (\<exists>d\<in>set ds. truthy d
              \<and> (\<exists>t. get d ''txId'' = Str t
                    \<and> (t = normalizedTxId (trim raw) \<or> trim t = normalizedTxId (trim raw)
                        \<or> t = trim raw \<or> trim t = trim raw))
              \<and> ToNumber (get d ''status'') = Finite 1)"
    if h: "trim raw \<noteq> []
          \<and> \<not> (\<exists>r\<in>set (processed_transactions (db s)).
                  txId r = normalizedTxId (trim raw) \<or> txId r = trim raw)
          \<and> getDepositHistory penv w (sent s) (Str (lit ''USDT'')) Undefined Undefined
               (Num (Finite 1000)) = (Inr ds, out)"
  proof -
    from h existing_Some_iff [of "db s" "trim raw"] have none: "existing (db s) (trim raw) = None"
      by (cases "existing (db s) (trim raw)") auto
    have "find (matches (trim raw)) ds = None \<longleftrightarrow> \<not> (\<exists>d\<in>set ds. matches (trim raw) d)"
      by (auto simp: find_None_iff)
    also have "\<dots> \<longleftrightarrow> \<not> (\<exists>d\<in>set ds. truthy d
              \<and> (\<exists>t. get d ''txId'' = Str t
                    \<and> (t = normalizedTxId (trim raw) \<or> trim t = normalizedTxId (trim raw)
                        \<or> t = trim raw \<or> trim t = trim raw))
              \<and> ToNumber (get d ''status'') = Finite 1)"
      by (auto simp: matches_def split: jsval.splits)
    finally show ?thesis
      using post_deposit_txid_existing(3) [OF assms _ none, of penv w ds out] h by simp
  qed
next
  fix other d r
  assume same: "normalizedTxId (trim other) = normalizedTxId (trim raw)"
    and row: "getByTxId d (normalizedTxId (trim raw)) = Some r"
  from row show "existing d (trim raw) = Some r"
    by (simp add: existing_def)
  from row same show "existing d (trim other) = Some r"
    by (simp add: existing_def)
next
  fix other d t
  assume same: "normalizedTxId (trim other) = normalizedTxId (trim raw)"
    and rec: "truthy d \<and> get d ''txId'' = Str t
       \<and> (t = normalizedTxId (trim raw) \<or> trim t = normalizedTxId (trim raw))
       \<and> ToNumber (get d ''status'') = Finite 1"
  from rec show "matches (trim raw) d"
    by (auto simp: matches_def)
  from rec same show "matches (trim other) d"
    by (auto simp: matches_def)
qed

theorem txid_dual_keys_witness:
  "post_deposit_txid with_credentials (exchange [] []) first_state (Obj [(''txId'', Str (lit ''   ''))])
     = (BadRequest ''txId is required'', first_state)
   \<and> normalizedTxId (trim (lit ''344178838453'')) = lit ''Off-chain transfer 344178838453''
   \<and> normalizedTxId (trim (lit '' Off-chain transfer 344178838453 ''))
       = lit ''Off-chain transfer 344178838453''
   \<and> reason (fst (post_deposit_txid with_credentials (exchange [] []) settled_9
         (Obj [(''txId'', Str (lit ''344178838453''))]))) = Some ''already_used''
   \<and> reason (fst (post_deposit_txid with_credentials (exchange [] []) settled_9
         (Obj [(''txId'', Str (lit '' Off-chain transfer 344178838453 ''))]))) = Some ''already_used''
   \<and> reason (fst (post_deposit_txid with_credentials (exchange [] []) first_state
         (Obj [(''txId'', Str (lit ''344178838453''))]))) = Some ''not_found''
   \<and> matches (trim (lit '' Off-chain transfer 344178838453 ''))
         (deposit_record (lit ''Off-chain transfer 344178838453'') (Str (lit ''9'')))
   \<and> matches (trim (lit ''344178838453''))
         (deposit_record (lit ''Off-chain transfer 344178838453'') (Str (lit ''9'')))"
proof -
  let ?bare = "lit ''344178838453''"
  let ?full = "lit '' Off-chain transfer 344178838453 ''"
  let ?blank = "lit ''   ''"
  let ?rec = "deposit_record (lit ''Off-chain transfer 344178838453'') (Str (lit ''9''))"
  let ?w = "exchange [] []"
  have b: "\<And>r. get (body_of (Obj [(''txId'', Str r)])) ''txId'' = Str r"
    by (simp add: body_of_def)
  note bare1 = txid_dual_keys [where raw = ?bare and penv = with_credentials and w = ?w
      and s = first_state and ds = "[]" and out = "sent first_state @ [history_request]", OF b]
  note bare2 = txid_dual_keys [where raw = ?bare and penv = with_credentials and w = ?w
      and s = settled_9, OF b]
  note full2 = txid_dual_keys [where raw = ?full and penv = with_credentials and w = ?w
      and s = settled_9, OF b]
  note blank = txid_dual_keys [where raw = ?blank and penv = with_credentials and w = ?w
      and s = first_state, OF b]
  have t0: "trim ?blank = []"
    by code_simp
  have t1: "trim ?bare \<noteq> []"
    by code_simp
  have t2: "trim ?full \<noteq> []"
    by code_simp
  have p1: "\<not> startsWith (trim ?bare) (lit ''Off-chain transfer '')"
    by code_simp
  have p2: "startsWith (trim ?full) (lit ''Off-chain transfer '')"
    by code_simp
  have e1: "lit ''Off-chain transfer '' @ trim ?bare = lit ''Off-chain transfer 344178838453''"
    by code_simp
  have e2: "trim ?full = lit ''Off-chain transfer 344178838453''"
    by code_simp
  have r0: "post_deposit_txid with_credentials ?w first_state (Obj [(''txId'', Str ?blank)])
     = (BadRequest ''txId is required'', first_state)"
    using blank [THEN conjunct1] t0 by (rule mp)
  have n1: "normalizedTxId (trim ?bare) = lit ''Off-chain transfer 344178838453''"
    using bare1 [THEN conjunct2, THEN conjunct2, THEN conjunct1, THEN mp, OF p1] e1 by simp
  have n2: "normalizedTxId (trim ?full) = lit ''Off-chain transfer 344178838453''"
    using full2 [THEN conjunct2, THEN conjunct1, THEN mp, OF p2] e2 by simp
  have row: "getByTxId (db settled_9) (lit ''Off-chain transfer 344178838453'')
     = Some \<lparr>rowid = 1, txId = lit ''Off-chain transfer 344178838453'', asset = lit ''USDT'',
         amount = Finite 9, rewardKes = Finite 1350, confirmedAt = 1769069484000\<rparr>"
    by code_simp
  then have stored: "\<exists>r\<in>set (processed_transactions (db settled_9)).
      txId r = lit ''Off-chain transfer 344178838453''"
    by (auto simp: getByTxId_def find_Some_iff)
  have r1: "reason (fst (post_deposit_txid with_credentials ?w settled_9
      (Obj [(''txId'', Str ?bare)]))) = Some ''already_used''"
    using bare2 [THEN conjunct2, THEN conjunct2, THEN conjunct2, THEN conjunct1, THEN mp, OF t1]
      stored n1 by auto
  have r2: "reason (fst (post_deposit_txid with_credentials ?w settled_9
      (Obj [(''txId'', Str ?full)]))) = Some ''already_used''"
    using full2 [THEN conjunct2, THEN conjunct2, THEN conjunct2, THEN conjunct1, THEN mp, OF t2]
      stored n2 by auto
  have none: "\<not> (\<exists>r\<in>set (processed_transactions (db first_state)).
      txId r = normalizedTxId (trim ?bare) \<or> txId r = trim ?bare)"
    by (simp add: first_state_def)
  have r3: "reason (fst (post_deposit_txid with_credentials ?w first_state
      (Obj [(''txId'', Str ?bare)]))) = Some ''not_found''"
    using bare1 [THEN conjunct2, THEN conjunct2, THEN conjunct2, THEN conjunct2, THEN conjunct1,
        THEN mp, OF conjI [OF t1 conjI [OF none exchange_history]]]
    by simp
  have same: "normalizedTxId (trim ?full) = normalizedTxId (trim ?bare)"
    by (simp add: n1 n2)
  have rec: "truthy ?rec \<and> get ?rec ''txId'' = Str (lit ''Off-chain transfer 344178838453'')
     \<and> (lit ''Off-chain transfer 344178838453'' = normalizedTxId (trim ?bare)
         \<or> trim (lit ''Off-chain transfer 344178838453'') = normalizedTxId (trim ?bare))
     \<and> ToNumber (get ?rec ''status'') = Finite 1"
    by (simp add: deposit_record_def n1)
  have r4: "matches (trim ?full) ?rec \<and> matches (trim ?bare) ?rec"
    using bare1 [THEN conjunct2, THEN conjunct2, THEN conjunct2, THEN conjunct2, THEN conjunct2,
        THEN spec, THEN mp, OF same, THEN conjunct2, THEN spec, THEN spec, THEN mp, OF rec] .
  from r0 n1 n2 r1 r2 r3 r4 show ?thesis
    by (intro conjI) simp_all
qed

text \<open>
  A confirmed deposit that the exchange lists under the bare identifier \<open>344178838453\<close>:
  the submission \<open>344178838453\<close> is settled, the submission
  \<open>Off-chain transfer 344178838453\<close> is answered \<open>not_found\<close>.
\<close>

theorem txid_dual_keys_counterexample:
  "fst (post_deposit_txid with_credentials
         (exchange [deposit_record (lit ''344178838453'') (Str (lit ''9''))] [])
         first_state (Obj [(''txId'', Str (lit ''344178838453''))]))
     = DepositComplete (Finite 9) 1769069484000 (Finite 1350)
   \<and> fst (post_deposit_txid with_credentials
         (exchange [deposit_record (lit ''344178838453'') (Str (lit ''9''))] [])
         first_state (Obj [(''txId'', Str (lit ''Off-chain transfer 344178838453''))]))
     = NotFound"
  by code_simp

end
